theory Spec2Isabelle
  imports Complex_Main "HOL-Library.Multiset"
begin

section \<open>JavaScript numbers\<close>

text \<open>
  A JavaScript Number is an IEEE 754 binary64 value. It is modelled as \<open>NaN\<close> or a
  rational, and every arithmetic operation rounds its exact result to the nearest
  binary64 value, ties to the even significand, as the standard prescribes. \<open>fl\<close> is
  that rounding: a value with binary exponent \<open>e\<close> lies on the grid of multiples of
  \<open>2^(e - 52)\<close>; the exponent is found by scanning the format's range from 1023 down to
  -1022, where the subnormal values share the last grid. Magnitudes of \<open>2^1024\<close> and
  above, which round to an infinity, and signed zeros are not represented: the pricing
  code works on time values, whose magnitude is at most 8.64e15.
\<close>

definition round_half_even :: "rat \<Rightarrow> int" where
  "round_half_even m =
     (let f = \<lfloor>m\<rfloor>; r = m - of_int f
      in if r < 1 / 2 then f
         else if 1 / 2 < r then f + 1
         else if even f then f else f + 1)"

fun find_exponent :: "nat \<Rightarrow> int \<Rightarrow> rat \<Rightarrow> int" where
  "find_exponent 0 e x = e"
| "find_exponent (Suc n) e x = (if 2 powi e \<le> x then e else find_exponent n (e - 1) x)"

definition exponent :: "rat \<Rightarrow> int" where
  "exponent x = find_exponent 2045 1023 x"

definition fl :: "rat \<Rightarrow> rat" where
  "fl x =
     (if x = 0 then 0
      else let u = 2 powi (exponent \<bar>x\<bar> - 52)
           in u * of_int (round_half_even (x / u)))"

datatype jsnum = NaN | Fin rat

text \<open>A numeric literal of the source denotes the binary64 value nearest to it.\<close>

definition literal :: "rat \<Rightarrow> jsnum" where
  "literal x = Fin (fl x)"

fun js_sub :: "jsnum \<Rightarrow> jsnum \<Rightarrow> jsnum" where
  "js_sub (Fin a) (Fin b) = Fin (fl (a - b))"
| "js_sub _ _ = NaN"

fun js_add :: "jsnum \<Rightarrow> jsnum \<Rightarrow> jsnum" where
  "js_add (Fin a) (Fin b) = Fin (fl (a + b))"
| "js_add _ _ = NaN"

fun js_mul :: "jsnum \<Rightarrow> jsnum \<Rightarrow> jsnum" where
  "js_mul (Fin a) (Fin b) = Fin (fl (a * b))"
| "js_mul _ _ = NaN"

text \<open>Division is only ever applied with the non-zero divisor \<open>1000 * 60 * 60 * 24\<close>.\<close>

fun js_div :: "jsnum \<Rightarrow> jsnum \<Rightarrow> jsnum" where
  "js_div (Fin a) (Fin b) = (if b = 0 then NaN else Fin (fl (a / b)))"
| "js_div _ _ = NaN"

text \<open>\<open>x <= y\<close> on Numbers: every comparison with \<open>NaN\<close> is false.\<close>

fun js_le :: "jsnum \<Rightarrow> jsnum \<Rightarrow> bool" where
  "js_le (Fin a) (Fin b) = (a \<le> b)"
| "js_le _ _ = False"

text \<open>
  \<open>Math.ceil\<close> and \<open>Math.round\<close> return the exact integer: the ceiling, and the nearest
  integer with ties upward, which is \<open>floor (x + 1/2)\<close>. Both are binary64 values
  whenever the argument is one.
\<close>

fun Math_ceil :: "jsnum \<Rightarrow> jsnum" where
  "Math_ceil (Fin a) = Fin (of_int \<lceil>a\<rceil>)"
| "Math_ceil NaN = NaN"

fun Math_round :: "jsnum \<Rightarrow> jsnum" where
  "Math_round (Fin a) = Fin (of_int \<lfloor>a + 1 / 2\<rfloor>)"
| "Math_round NaN = NaN"

text \<open>
  \<open>new Date(s).getTime()\<close>: the time value in milliseconds, or \<open>NaN\<close> for an
  Invalid Date. The platform's date parser is a parameter \<open>parse\<close>, giving the time
  value of a string it accepts and \<open>None\<close> for one it does not. A time value is an
  integer of magnitude at most 8.64e15, which is a binary64 value.
\<close>

definition getTime :: "(string \<Rightarrow> int option) \<Rightarrow> string \<Rightarrow> jsnum" where
  "getTime parse s = (case parse s of None \<Rightarrow> NaN | Some t \<Rightarrow> Fin (of_int t))"

section \<open>Pricing calculator\<close>

text \<open>
  \<^verbatim>\<open>
  const calculateTotal = (checkin: string, checkout: string, guests: number) => {
    if (!checkin || !checkout) return 0;
    const checkinDate = new Date(checkin);
    const checkoutDate = new Date(checkout);
    const nights = Math.ceil((checkoutDate.getTime() - checkinDate.getTime())
                             / (1000 * 60 * 60 * 24));
    if (nights <= 0) return 0;
    const basePrice = 850;
    const subtotal = basePrice * nights;
    const serviceFee = Math.round(subtotal * 0.06);
    const taxes = Math.round(subtotal * 0.08);
    return subtotal + serviceFee + taxes;
  };
  \<close>
  A string is falsy exactly when it is empty.
\<close>

definition nights_of :: "(string \<Rightarrow> int option) \<Rightarrow> string \<Rightarrow> string \<Rightarrow> jsnum" where
  "nights_of parse checkin checkout =
     Math_ceil (js_div (js_sub (getTime parse checkout) (getTime parse checkin))
                       (js_mul (js_mul (js_mul (literal 1000) (literal 60)) (literal 60))
                               (literal 24)))"

definition calculateTotal ::
  "(string \<Rightarrow> int option) \<Rightarrow> string \<Rightarrow> string \<Rightarrow> jsnum \<Rightarrow> jsnum" where
  "calculateTotal parse checkin checkout guests =
     (if checkin = [] \<or> checkout = [] then literal 0
      else
        let nights = nights_of parse checkin checkout in
        if js_le nights (literal 0) then literal 0
        else
          let basePrice = literal 850;
              subtotal = js_mul basePrice nights;
              serviceFee = Math_round (js_mul subtotal (literal (6 / 100)));
              taxes = Math_round (js_mul subtotal (literal (8 / 100)))
          in js_add (js_add subtotal serviceFee) taxes)"

text \<open>
  The specification's words for the price: nearest-integer rounding with ties upward,
  the night count as a ceiling of the difference in days, and the three components.
\<close>

definition round_half_up :: "rat \<Rightarrow> int" where
  "round_half_up x = (if frac x < 1 / 2 then \<lfloor>x\<rfloor> else \<lceil>x\<rceil>)"

definition spec_nights :: "int \<Rightarrow> int \<Rightarrow> int" where
  "spec_nights tin tout = \<lceil>(of_int (tout - tin) :: rat) / 86400000\<rceil>"

definition spec_total :: "int \<Rightarrow> int" where
  "spec_total nights =
     (let subtotal = 850 * nights
      in subtotal + round_half_up (of_int subtotal * (6 / 100))
                  + round_half_up (of_int subtotal * (8 / 100)))"

section \<open>JSON values and request bodies\<close>

text \<open>
  A request body is a parsed JSON value; \<open>JUndefined\<close> stands for a property that is
  not there. An object is the list of its entries, keys distinct, read with \<open>map_of\<close>.
\<close>

datatype json =
    JUndefined
  | JNull
  | JBool bool
  | JNum rat
  | JStr string
  | JArr "json list"
  | JObj "(string \<times> json) list"

text \<open>JavaScript truthiness, as the test \<open>!status\<close> reads it.\<close>

fun truthy :: "json \<Rightarrow> bool" where
  "truthy JUndefined = False"
| "truthy JNull = False"
| "truthy (JBool b) = b"
| "truthy (JNum n) = (n \<noteq> 0)"
| "truthy (JStr s) = (s \<noteq> [])"
| "truthy (JArr _) = True"
| "truthy (JObj _) = True"

text \<open>
  Reading a named property of a value that is neither \<open>undefined\<close> nor \<open>null\<close>:
  only an object has the booking properties.
\<close>

fun get_prop :: "json \<Rightarrow> string \<Rightarrow> json" where
  "get_prop (JObj kvs) k = (case map_of kvs k of None \<Rightarrow> JUndefined | Some v \<Rightarrow> v)"
| "get_prop _ k = JUndefined"

section \<open>Booking records (shared/schema.ts)\<close>

text \<open>
  \<open>InsertBooking\<close> is what the insert schema yields: \<open>guestPhone\<close> is optional
  (\<open>None\<close> is an omitted phone) and \<open>status\<close> has been defaulted. \<open>guests\<close> is a
  JavaScript number.
\<close>

record insert_booking =
  checkinDate :: string
  checkoutDate :: string
  guests :: rat
  guestName :: string
  guestEmail :: string
  guestPhone :: "string option"
  totalAmount :: string
  status :: string

text \<open>
  \<open>Partial<Booking>\<close>: every field of a booking, each optional. \<open>None\<close> is a key the
  payload does not have; for \<open>guestPhone\<close>, \<open>Some None\<close> is the key bound to
  \<open>null\<close>. A key bound to \<open>undefined\<close> is not a value of any field of a booking
  and has no place in this record; the objects at run time, further down, have one. The
  one caller passes \<open>{ status }\<close> with a truthy status.
\<close>

record booking_partial =
  bid :: "string option"
  checkinDate :: "string option"
  checkoutDate :: "string option"
  guests :: "rat option"
  guestName :: "string option"
  guestEmail :: "string option"
  guestPhone :: "string option option"
  totalAmount :: "string option"
  status :: "json option"
  createdAt :: "int option"

text \<open>
  \<open>Booking\<close>, a row of the bookings table. The field \<open>id\<close> is written \<open>bid\<close>.
  \<open>guestPhone = None\<close> is \<open>null\<close>; \<open>createdAt\<close> is the time value of the Date in
  milliseconds. \<open>status\<close> holds whatever JSON value the status endpoint was sent,
  since that endpoint passes the request's value on unchecked.
\<close>

record booking =
  bid :: string
  checkinDate :: string
  checkoutDate :: string
  guests :: rat
  guestName :: string
  guestEmail :: string
  guestPhone :: "string option"
  totalAmount :: string
  status :: json
  createdAt :: int

section \<open>In-memory storage (server/storage.ts)\<close>

text \<open>
  A JavaScript \<open>Map\<close> keeps its entries in insertion order; \<open>set\<close> on a key that is
  present replaces the value where it stands, and appends a new key at the end.
\<close>

type_synonym 'v jsmap = "(string \<times> 'v) list"

definition Map_get :: "'v jsmap \<Rightarrow> string \<Rightarrow> 'v option" where
  "Map_get m k = map_of m k"

fun Map_set :: "'v jsmap \<Rightarrow> string \<Rightarrow> 'v \<Rightarrow> 'v jsmap" where
  "Map_set [] k v = [(k, v)]"
| "Map_set ((k', v') # m) k v =
     (if k' = k then (k, v) # m else (k', v') # Map_set m k v)"

definition Map_values :: "'v jsmap \<Rightarrow> 'v list" where
  "Map_values m = map snd m"

text \<open>
  \<open>Array.prototype.sort\<close> with a comparator: a stable sort, an element \<open>a\<close> coming
  before \<open>b\<close> when \<open>cmp a b < 0\<close>, and elements that compare equal keeping their
  order. It is modelled as the insertion sort that has this result: the elements are
  inserted from the last to the first, each before the first element it does not have to
  follow, so it stays ahead of the later elements it compares equal to.
\<close>

fun insert_sorted :: "('a \<Rightarrow> 'a \<Rightarrow> int) \<Rightarrow> 'a \<Rightarrow> 'a list \<Rightarrow> 'a list" where
  "insert_sorted cmp x [] = [x]"
| "insert_sorted cmp x (y # ys) =
     (if cmp x y \<le> 0 then x # y # ys else y # insert_sorted cmp x ys)"

definition Array_sort :: "('a \<Rightarrow> 'a \<Rightarrow> int) \<Rightarrow> 'a list \<Rightarrow> 'a list" where
  "Array_sort cmp xs = foldr (insert_sorted cmp) xs []"

text \<open>
  Of the maps of \<open>MemStorage\<close> only \<open>bookings\<close> is kept; the booking operations
  read and write no other.
\<close>

record MemStorage =
  bookings :: "booking jsmap"

definition MemStorage_new :: MemStorage where
  "MemStorage_new = \<lparr> bookings = [] \<rparr>"

text \<open>
  \<^verbatim>\<open>
  async getBookings(): Promise<Booking[]> {
    return Array.from(this.bookings.values()).sort((a, b) =>
      new Date(b.createdAt!).getTime() - new Date(a.createdAt!).getTime());
  }
  async getBooking(id: string): Promise<Booking | undefined> {
    return this.bookings.get(id);
  }
  \<close>
\<close>

definition getBookings :: "MemStorage \<Rightarrow> booking list" where
  "getBookings st =
     Array_sort (\<lambda>a b. createdAt b - createdAt a) (Map_values (bookings st))"

definition getBooking :: "string \<Rightarrow> MemStorage \<Rightarrow> booking option" where
  "getBooking i st = Map_get (bookings st) i"

text \<open>
  \<^verbatim>\<open>
  async createBooking(insertBooking: InsertBooking): Promise<Booking> {
    const id = randomUUID();
    const booking: Booking = {
      ...insertBooking,
      guestPhone: insertBooking.guestPhone || null,
      id,
      createdAt: new Date(),
    };
    this.bookings.set(id, booking);
    return booking;
  }
  \<close>
  The value drawn from \<open>randomUUID()\<close> and the clock reading of \<open>new Date()\<close> are
  arguments. \<open>x || null\<close> is \<open>null\<close> for a falsy \<open>x\<close>: an omitted phone and the
  empty string.
\<close>

definition or_null :: "string option \<Rightarrow> string option" where
  "or_null x = (case x of None \<Rightarrow> None | Some s \<Rightarrow> if s = [] then None else Some s)"

definition createBooking ::
  "string \<Rightarrow> int \<Rightarrow> insert_booking \<Rightarrow> MemStorage \<Rightarrow> booking \<times> MemStorage" where
  "createBooking uuid now insertBooking st =
     (let booking =
        \<lparr> bid = uuid,
          checkinDate = insert_booking.checkinDate insertBooking,
          checkoutDate = insert_booking.checkoutDate insertBooking,
          guests = insert_booking.guests insertBooking,
          guestName = insert_booking.guestName insertBooking,
          guestEmail = insert_booking.guestEmail insertBooking,
          guestPhone = or_null (insert_booking.guestPhone insertBooking),
          totalAmount = insert_booking.totalAmount insertBooking,
          status = JStr (insert_booking.status insertBooking),
          createdAt = now \<rparr>
      in (booking, st\<lparr> bookings := Map_set (bookings st) uuid booking \<rparr>))"

text \<open>
  \<^verbatim>\<open>
  async updateBooking(id: string, updateData: Partial<Booking>)
      : Promise<Booking | undefined> {
    const existing = this.bookings.get(id);
    if (!existing) return undefined;
    const updated = { ...existing, ...updateData };
    this.bookings.set(id, updated);
    return updated;
  }
  \<close>
  The object spread takes each key of \<open>updateData\<close> over the existing value.
\<close>

definition override :: "'a \<Rightarrow> 'a option \<Rightarrow> 'a" where
  "override old new = (case new of None \<Rightarrow> old | Some v \<Rightarrow> v)"

definition spread :: "booking \<Rightarrow> booking_partial \<Rightarrow> booking" where
  "spread existing updateData =
     \<lparr> bid = override (bid existing) (booking_partial.bid updateData),
       checkinDate = override (checkinDate existing) (booking_partial.checkinDate updateData),
       checkoutDate = override (checkoutDate existing) (booking_partial.checkoutDate updateData),
       guests = override (guests existing) (booking_partial.guests updateData),
       guestName = override (guestName existing) (booking_partial.guestName updateData),
       guestEmail = override (guestEmail existing) (booking_partial.guestEmail updateData),
       guestPhone = override (guestPhone existing) (booking_partial.guestPhone updateData),
       totalAmount = override (totalAmount existing) (booking_partial.totalAmount updateData),
       status = override (status existing) (booking_partial.status updateData),
       createdAt = override (createdAt existing) (booking_partial.createdAt updateData) \<rparr>"

definition updateBooking ::
  "string \<Rightarrow> booking_partial \<Rightarrow> MemStorage \<Rightarrow> booking option \<times> MemStorage" where
  "updateBooking i updateData st =
     (case Map_get (bookings st) i of
        None \<Rightarrow> (None, st)
      | Some existing \<Rightarrow>
          let updated = spread existing updateData
          in (Some updated, st\<lparr> bookings := Map_set (bookings st) i updated \<rparr>))"

section \<open>The identifier generator\<close>

text \<open>
  \<open>createBooking\<close> above takes the identifier as an argument. In the source it is
  drawn from \<open>randomUUID()\<close>, whose contract is that it does not return the same value
  twice. The generator is the sequence \<open>gen\<close> of the values it returns, call after
  call, and the server counts the calls made: \<open>create\<close> is \<open>createBooking\<close> with its
  \<open>const id = randomUUID()\<close>.
\<close>

record server =
  storage :: MemStorage
  drawn :: nat

definition randomUUID :: "(nat \<Rightarrow> string) \<Rightarrow> server \<Rightarrow> string \<times> server" where
  "randomUUID gen w = (gen (drawn w), w\<lparr> drawn := Suc (drawn w) \<rparr>)"

definition create ::
  "(nat \<Rightarrow> string) \<Rightarrow> int \<Rightarrow> insert_booking \<Rightarrow> server \<Rightarrow> booking \<times> server" where
  "create gen now insertBooking w =
     (case randomUUID gen w of
        (uuid, w') \<Rightarrow>
          (case createBooking uuid now insertBooking (storage w') of
             (booking, st') \<Rightarrow> (booking, w'\<lparr> storage := st' \<rparr>)))"

text \<open>
  The states of a server are those its operations lead to from the start: bookings
  created, bookings updated, and identifiers drawn for the other maps of the storage.
\<close>

datatype call =
    Create int insert_booking
  | Update string booking_partial
  | Draw

fun step :: "(nat \<Rightarrow> string) \<Rightarrow> server \<Rightarrow> call \<Rightarrow> server" where
  "step gen w (Create now insertBooking) = snd (create gen now insertBooking w)"
| "step gen w (Update i updateData) =
     w\<lparr> storage := snd (updateBooking i updateData (storage w)) \<rparr>"
| "step gen w Draw = snd (randomUUID gen w)"

definition run :: "(nat \<Rightarrow> string) \<Rightarrow> call list \<Rightarrow> server" where
  "run gen calls = foldl (step gen) \<lparr> storage = MemStorage_new, drawn = 0 \<rparr> calls"

definition keys :: "'v jsmap \<Rightarrow> string set" where
  "keys m = set (map fst m)"

section \<open>Bookings as objects at run time\<close>

text \<open>
  The records above are the bookings as their TypeScript types describe them. At run
  time a booking is an object, and \<open>Partial<Booking>\<close> also admits a payload that has
  a key bound to \<open>undefined\<close>, which no field of the record \<open>booking\<close> can hold. For
  the update a booking is therefore also modelled as the object it is: the list of its
  own properties, keys distinct, each with a value that is JSON data (\<open>undefined\<close>
  included) or a Date. Reading a property that is not there gives \<open>undefined\<close>.
\<close>

datatype jsvalue = Data json | DateValue int

type_synonym jsobject = "jsvalue jsmap"


text \<open>
  \<open>{ ...existing, ...updateData }\<close>: a copy of \<open>existing\<close> on which every own property
  of \<open>updateData\<close> is set in turn, whatever its value.
\<close>

definition object_spread :: "jsobject \<Rightarrow> jsobject \<Rightarrow> jsobject" where
  "object_spread existing updateData =
     foldl (\<lambda>obj (k, v). Map_set obj k v) existing updateData"

text \<open>\<open>updateBooking\<close> on the map of these objects; an object is never falsy.\<close>

definition updateBooking_js ::
  "string \<Rightarrow> jsobject \<Rightarrow> jsobject jsmap \<Rightarrow> jsobject option \<times> jsobject jsmap" where
  "updateBooking_js i updateData store =
     (case Map_get store i of
        None \<Rightarrow> (None, store)
      | Some existing \<Rightarrow>
          let updated = object_spread existing updateData
          in (Some updated, Map_set store i updated))"

text \<open>
  The object of a record (the order of the properties plays no part in what is read
  from it), and the object of a typed payload, which has the keys that are present.
\<close>

definition phone_value :: "string option \<Rightarrow> json" where
  "phone_value x = (case x of None \<Rightarrow> JNull | Some s \<Rightarrow> JStr s)"

definition booking_object :: "booking \<Rightarrow> jsobject" where
  "booking_object b =
     [(''checkinDate'', Data (JStr (checkinDate b))),
      (''checkoutDate'', Data (JStr (checkoutDate b))),
      (''guests'', Data (JNum (guests b))),
      (''guestName'', Data (JStr (guestName b))),
      (''guestEmail'', Data (JStr (guestEmail b))),
      (''guestPhone'', Data (phone_value (guestPhone b))),
      (''totalAmount'', Data (JStr (totalAmount b))),
      (''status'', Data (status b)),
      (''id'', Data (JStr (bid b))),
      (''createdAt'', DateValue (createdAt b))]"

definition entry :: "string \<Rightarrow> jsvalue option \<Rightarrow> jsobject" where
  "entry k x = (case x of None \<Rightarrow> [] | Some v \<Rightarrow> [(k, v)])"

definition partial_object :: "booking_partial \<Rightarrow> jsobject" where
  "partial_object u =
     entry ''id'' (map_option (\<lambda>v. Data (JStr v)) (booking_partial.bid u))
     @ entry ''checkinDate'' (map_option (\<lambda>v. Data (JStr v)) (booking_partial.checkinDate u))
     @ entry ''checkoutDate'' (map_option (\<lambda>v. Data (JStr v)) (booking_partial.checkoutDate u))
     @ entry ''guests'' (map_option (\<lambda>v. Data (JNum v)) (booking_partial.guests u))
     @ entry ''guestName'' (map_option (\<lambda>v. Data (JStr v)) (booking_partial.guestName u))
     @ entry ''guestEmail'' (map_option (\<lambda>v. Data (JStr v)) (booking_partial.guestEmail u))
     @ entry ''guestPhone'' (map_option (\<lambda>v. Data (phone_value v)) (booking_partial.guestPhone u))
     @ entry ''totalAmount'' (map_option (\<lambda>v. Data (JStr v)) (booking_partial.totalAmount u))
     @ entry ''status'' (map_option Data (booking_partial.status u))
     @ entry ''createdAt'' (map_option DateValue (booking_partial.createdAt u))"

section \<open>Insert schema (shared/schema.ts)\<close>

text \<open>
  The zod checks the booking schema is built from. An issue carries the path of the
  field and a message; an input of the wrong type is reported as zod reports it.
\<close>

record issue =
  path :: "string list"
  message :: string

fun typeName :: "json \<Rightarrow> string" where
  "typeName JUndefined = ''undefined''"
| "typeName JNull = ''null''"
| "typeName (JBool _) = ''boolean''"
| "typeName (JNum _) = ''number''"
| "typeName (JStr _) = ''string''"
| "typeName (JArr _) = ''array''"
| "typeName (JObj _) = ''object''"

definition invalid_type :: "string list \<Rightarrow> string \<Rightarrow> json \<Rightarrow> issue" where
  "invalid_type p expected v =
     \<lparr> path = p,
       message = (if v = JUndefined then ''Required''
                  else ''Expected '' @ expected @ '', received '' @ typeName v) \<rparr>"

text \<open>\<open>z.string().min(1, msg)\<close>\<close>

definition z_string_min1 :: "string \<Rightarrow> string \<Rightarrow> json \<Rightarrow> issue list + string" where
  "z_string_min1 key msg v =
     (case v of
        JStr s \<Rightarrow> if length s < 1 then Inl [\<lparr> path = [key], message = msg \<rparr>] else Inr s
      | _ \<Rightarrow> Inl [invalid_type [key] ''string'' v])"

text \<open>
  \<open>z.number().min(1, "At least 1 guest is required").max(10, "Maximum 10 guests
  allowed")\<close>: any number passes the type test, and both bounds are checked.
\<close>

definition z_guests :: "json \<Rightarrow> issue list + rat" where
  "z_guests v =
     (case v of
        JNum n \<Rightarrow>
          let issues =
                (if n < 1
                 then [\<lparr> path = [''guests''], message = ''At least 1 guest is required'' \<rparr>]
                 else [])
                @ (if 10 < n
                   then [\<lparr> path = [''guests''], message = ''Maximum 10 guests allowed'' \<rparr>]
                   else [])
          in if issues = [] then Inr n else Inl issues
      | _ \<Rightarrow> Inl [invalid_type [''guests''] ''number'' v])"

text \<open>
  \<open>z.string().email(msg)\<close> tests the string against the regular expression for
  addresses of the zod library (version 3), which is not part of this repository:
  \<^verbatim>\<open>/^(?!\.)(?!.*\.\.)([A-Z0-9_'+\-\.]*)[A-Z0-9_+-]@([A-Z0-9][A-Z0-9\-]*\.)+[A-Z]{2,}$/i\<close>
  Neither side of the \<open>@\<close> admits an \<open>@\<close>, so a match splits at the first one; the
  domain is dot-separated labels followed by a top-level name of two or more letters.
\<close>

definition is_letter :: "char \<Rightarrow> bool" where
  "is_letter c = (c \<in> set ''abcdefghijklmnopqrstuvwxyzABCDEFGHIJKLMNOPQRSTUVWXYZ'')"

definition is_alnum :: "char \<Rightarrow> bool" where
  "is_alnum c = (is_letter c \<or> c \<in> set ''0123456789'')"

definition local_char :: "char \<Rightarrow> bool" where
  "local_char c = (is_alnum c \<or> c \<in> set [CHR ''_'', CHR 0x27, CHR ''+'', CHR ''-'', CHR ''.''])"

definition local_end :: "char \<Rightarrow> bool" where
  "local_end c = (is_alnum c \<or> c \<in> set ''_+-'')"

fun has_dotdot :: "string \<Rightarrow> bool" where
  "has_dotdot (a # b # cs) = ((a = CHR ''.'' \<and> b = CHR ''.'') \<or> has_dotdot (b # cs))"
| "has_dotdot _ = False"

fun split_on :: "char \<Rightarrow> string \<Rightarrow> string list" where
  "split_on c [] = [[]]"
| "split_on c (x # xs) =
     (if x = c then [] # split_on c xs
      else (case split_on c xs of [] \<Rightarrow> [[x]] | y # ys \<Rightarrow> (x # y) # ys))"

definition label_ok :: "string \<Rightarrow> bool" where
  "label_ok l =
     (case l of [] \<Rightarrow> False
      | c # cs \<Rightarrow> is_alnum c \<and> list_all (\<lambda>x. is_alnum x \<or> x = CHR ''-'') cs)"

definition domain_ok :: "string \<Rightarrow> bool" where
  "domain_ok d =
     (let labels = split_on (CHR ''.'') d
      in 2 \<le> length labels \<and> list_all label_ok (butlast labels)
         \<and> 2 \<le> length (last labels) \<and> list_all is_letter (last labels))"

definition local_ok :: "string \<Rightarrow> bool" where
  "local_ok l = (l \<noteq> [] \<and> list_all local_char (butlast l) \<and> local_end (last l))"

definition emailRegex :: "string \<Rightarrow> bool" where
  "emailRegex s =
     ((case s of [] \<Rightarrow> True | c # _ \<Rightarrow> c \<noteq> CHR ''.'')
      \<and> \<not> has_dotdot s
      \<and> (case dropWhile (\<lambda>c. c \<noteq> CHR ''@'') s of
            [] \<Rightarrow> False
          | _ # domain \<Rightarrow> local_ok (takeWhile (\<lambda>c. c \<noteq> CHR ''@'') s) \<and> domain_ok domain))"

definition z_email :: "string \<Rightarrow> string \<Rightarrow> json \<Rightarrow> issue list + string" where
  "z_email key msg v =
     (case v of
        JStr s \<Rightarrow> if emailRegex s then Inr s else Inl [\<lparr> path = [key], message = msg \<rparr>]
      | _ \<Rightarrow> Inl [invalid_type [key] ''string'' v])"

text \<open>\<open>z.string().optional()\<close> and \<open>z.string().default(d)\<close>\<close>

definition z_string_optional :: "string \<Rightarrow> json \<Rightarrow> issue list + string option" where
  "z_string_optional key v =
     (case v of
        JUndefined \<Rightarrow> Inr None
      | JStr s \<Rightarrow> Inr (Some s)
      | _ \<Rightarrow> Inl [invalid_type [key] ''string'' v])"

definition z_string_default :: "string \<Rightarrow> string \<Rightarrow> json \<Rightarrow> issue list + string" where
  "z_string_default key d v =
     (case v of
        JUndefined \<Rightarrow> Inr d
      | JStr s \<Rightarrow> Inr s
      | _ \<Rightarrow> Inl [invalid_type [key] ''string'' v])"

text \<open>
  An object schema checks every key and reports the issues of all of them; it yields a
  value only when there is none.
\<close>

fun collect :: "issue list + ('a \<Rightarrow> 'b) \<Rightarrow> issue list + 'a \<Rightarrow> issue list + 'b" where
  "collect (Inr f) (Inr x) = Inr (f x)"
| "collect (Inr f) (Inl e) = Inl e"
| "collect (Inl e) (Inr x) = Inl e"
| "collect (Inl e) (Inl e') = Inl (e @ e')"

text \<open>
  \<^verbatim>\<open>
  export const insertBookingSchema = createInsertSchema(bookings).omit({
    id: true, createdAt: true,
  }).extend({
    checkinDate: z.string().min(1, "Check-in date is required"),
    checkoutDate: z.string().min(1, "Check-out date is required"),
    guests: z.number().min(1, "At least 1 guest is required")
                      .max(10, "Maximum 10 guests allowed"),
    guestName: z.string().min(1, "Guest name is required"),
    guestEmail: z.string().email("Valid email is required"),
    guestPhone: z.string().optional(),
    totalAmount: z.string().min(1, "Total amount is required"),
    status: z.string().default("pending"),
  });
  \<close>
  \<open>extend\<close> replaces each of the eight keys by the schema given here.
\<close>

definition make_insert_booking ::
  "string \<Rightarrow> string \<Rightarrow> rat \<Rightarrow> string \<Rightarrow> string \<Rightarrow> string option \<Rightarrow> string \<Rightarrow> string
     \<Rightarrow> insert_booking" where
  "make_insert_booking ci co g n e ph t s =
     \<lparr> insert_booking.checkinDate = ci, checkoutDate = co, guests = g, guestName = n,
       guestEmail = e, guestPhone = ph, totalAmount = t, status = s \<rparr>"

definition insertBookingSchema :: "json \<Rightarrow> issue list + insert_booking" where
  "insertBookingSchema body =
     (case body of
        JObj _ \<Rightarrow>
          collect (collect (collect (collect (collect (collect (collect (collect
            (Inr make_insert_booking)
            (z_string_min1 ''checkinDate'' ''Check-in date is required''
               (get_prop body ''checkinDate'')))
            (z_string_min1 ''checkoutDate'' ''Check-out date is required''
               (get_prop body ''checkoutDate'')))
            (z_guests (get_prop body ''guests'')))
            (z_string_min1 ''guestName'' ''Guest name is required''
               (get_prop body ''guestName'')))
            (z_email ''guestEmail'' ''Valid email is required''
               (get_prop body ''guestEmail'')))
            (z_string_optional ''guestPhone'' (get_prop body ''guestPhone'')))
            (z_string_min1 ''totalAmount'' ''Total amount is required''
               (get_prop body ''totalAmount'')))
            (z_string_default ''status'' ''pending'' (get_prop body ''status''))
      | _ \<Rightarrow> Inl [invalid_type [] ''object'' body])"

section \<open>Exceptions\<close>

text \<open>
  What the server code can throw: the \<open>ZodError\<close> of a failed \<open>parse\<close>, carrying its
  issues, and any other error. A computation that may throw returns \<open>exn + 'a\<close>.
\<close>

datatype exn = ZodError "issue list" | Error string

definition insertBookingSchema_parse :: "json \<Rightarrow> exn + insert_booking" where
  "insertBookingSchema_parse body =
     (case insertBookingSchema body of
        Inl issues \<Rightarrow> Inl (ZodError issues)
      | Inr validatedData \<Rightarrow> Inr validatedData)"

section \<open>Notifier (server/email.ts)\<close>

text \<open>
  \<^verbatim>\<open>
  export async function sendEmail(params: EmailParams): Promise<boolean> {
    try {
      await mailService.send({ to: params.to, from: params.from,
                               subject: params.subject, html: params.html });
      return true;
    } catch (error) {
      console.error('SendGrid email error:', error);
      return false;
    }
  }
  \<close>
  The mail service is a parameter \<open>send\<close> that delivers or throws. The fields \<open>to\<close>
  and \<open>from\<close> are written \<open>to_addr\<close> and \<open>from_addr\<close>. The line written by
  \<open>console.error\<close> is left out of the result.
\<close>

record EmailParams =
  to_addr :: string
  from_addr :: string
  subject :: string
  html :: string

definition sendEmail :: "(EmailParams \<Rightarrow> exn + unit) \<Rightarrow> EmailParams \<Rightarrow> exn + bool" where
  "sendEmail send params =
     (case send params of
        Inr _ \<Rightarrow> Inr True
      | Inl error \<Rightarrow> Inr False)"

text \<open>
  \<^verbatim>\<open>
  export async function sendBookingConfirmation(booking: Booking): Promise<boolean> {
    const emailHtml = generateBookingConfirmationEmail(booking);
    return await sendEmail({
      to: booking.guestEmail,
      from: 'reservations@luxestay.com',
      subject: `Booking Confirmed - LuxeStay Villa Reservation #${booking.id.slice(-8)}`,
      html: emailHtml
    });
  }
  \<close>
  The HTML template \<open>generateBookingConfirmationEmail\<close> is a string built from the
  booking's fields; it is a parameter \<open>render\<close>. \<open>slice(-8)\<close> keeps the last eight
  characters, or the whole string when it is shorter.
\<close>

definition slice_last :: "nat \<Rightarrow> string \<Rightarrow> string" where
  "slice_last n s = drop (length s - n) s"

definition sendBookingConfirmation ::
  "(EmailParams \<Rightarrow> exn + unit) \<Rightarrow> (booking \<Rightarrow> string) \<Rightarrow> booking \<Rightarrow> exn + bool" where
  "sendBookingConfirmation send render booking =
     (let emailHtml = render booking
      in sendEmail send
           \<lparr> to_addr = guestEmail booking,
             from_addr = ''reservations@luxestay.com'',
             subject = ''Booking Confirmed - LuxeStay Villa Reservation #''
                         @ slice_last 8 (bid booking),
             html = emailHtml \<rparr>)"

section \<open>Route handlers (server/routes.ts)\<close>

text \<open>
  A handler's outcome is the response it sends (status code and JSON body), the storage
  it leaves, and the lines it wrote to the console.
\<close>

datatype reply =
    BookingReply booking
  | MessageReply string
  | ValidationReply string "issue list"

datatype response = Response nat reply

datatype console = Warn string | ErrorLine string

text \<open>
  \<^verbatim>\<open>
  app.post("/api/bookings", async (req, res) => {
    try {
      const validatedData = insertBookingSchema.parse(req.body);
      const booking = await storage.createBooking(validatedData);
      if (booking.status === "confirmed") {
        try {
          const emailSent = await sendBookingConfirmation(booking);
          if (!emailSent) {
            console.warn(`Failed to send confirmation email for booking ${booking.id}`);
          }
        } catch (error) {
          console.error(`Error sending confirmation email for booking ${booking.id}:`, error);
        }
      }
      res.status(201).json(booking);
    } catch (error) {
      if (error instanceof z.ZodError) {
        res.status(400).json({ message: "Validation error", errors: error.errors });
      } else {
        res.status(500).json({ message: "Failed to create booking" });
      }
    }
  });
  \<close>
  The notifier is a parameter that returns a boolean or throws. \<open>post_bookings_try\<close>
  is the body of the outer \<open>try\<close>, \<open>post_bookings\<close> the handler with its \<open>catch\<close>.
\<close>

definition notify_confirmed :: "(booking \<Rightarrow> exn + bool) \<Rightarrow> booking \<Rightarrow> console list" where
  "notify_confirmed notifier booking =
     (case notifier booking of
        Inr emailSent \<Rightarrow>
          if \<not> emailSent
          then [Warn (''Failed to send confirmation email for booking '' @ bid booking)]
          else []
      | Inl error \<Rightarrow>
          [ErrorLine (''Error sending confirmation email for booking '' @ bid booking @ '':'')])"

definition post_bookings_try ::
  "(booking \<Rightarrow> exn + bool) \<Rightarrow> string \<Rightarrow> int \<Rightarrow> json \<Rightarrow> MemStorage
     \<Rightarrow> exn + response \<times> MemStorage \<times> console list" where
  "post_bookings_try notifier uuid now body st =
     (case insertBookingSchema_parse body of
        Inl error \<Rightarrow> Inl error
      | Inr validatedData \<Rightarrow>
          (case createBooking uuid now validatedData st of
             (booking, st') \<Rightarrow>
               let out = (if status booking = JStr ''confirmed''
                          then notify_confirmed notifier booking else [])
               in Inr (Response 201 (BookingReply booking), st', out)))"

definition post_bookings ::
  "(booking \<Rightarrow> exn + bool) \<Rightarrow> string \<Rightarrow> int \<Rightarrow> json \<Rightarrow> MemStorage
     \<Rightarrow> response \<times> MemStorage \<times> console list" where
  "post_bookings notifier uuid now body st =
     (case post_bookings_try notifier uuid now body st of
        Inr done \<Rightarrow> done
      | Inl (ZodError errors) \<Rightarrow>
          (Response 400 (ValidationReply ''Validation error'' errors), st, [])
      | Inl (Error _) \<Rightarrow>
          (Response 500 (MessageReply ''Failed to create booking''), st, []))"

text \<open>
  \<^verbatim>\<open>
  app.patch("/api/bookings/:id", async (req, res) => {
    try {
      const { status } = req.body;
      if (!status) {
        res.status(400).json({ message: "Status is required" });
        return;
      }
      const booking = await storage.updateBooking(req.params.id, { status });
      if (!booking) {
        res.status(404).json({ message: "Booking not found" });
        return;
      }
      res.json(booking);
    } catch (error) {
      res.status(500).json({ message: "Failed to update booking" });
    }
  });
  \<close>
  Destructuring a body that is \<open>undefined\<close> or \<open>null\<close> throws, which the \<open>catch\<close>
  answers with 500. \<open>res.json\<close> without a status sends 200.
\<close>

definition no_fields :: booking_partial where
  "no_fields =
     \<lparr> booking_partial.bid = None, checkinDate = None, checkoutDate = None,
       guests = None, guestName = None, guestEmail = None, guestPhone = None,
       totalAmount = None, status = None, createdAt = None \<rparr>"

definition patch_booking :: "string \<Rightarrow> json \<Rightarrow> MemStorage \<Rightarrow> response \<times> MemStorage" where
  "patch_booking i body st =
     (if body = JUndefined \<or> body = JNull
      then (Response 500 (MessageReply ''Failed to update booking''), st)
      else
        let status = get_prop body ''status'' in
        if \<not> truthy status
        then (Response 400 (MessageReply ''Status is required''), st)
        else
          (case updateBooking i (no_fields\<lparr> booking_partial.status := Some status \<rparr>) st of
             (None, st') \<Rightarrow> (Response 404 (MessageReply ''Booking not found''), st')
           | (Some booking, st') \<Rightarrow> (Response 200 (BookingReply booking), st')))"

section \<open>Sample data\<close>

text \<open>
  Calendar strings with the time values a date parser gives them (UTC midnight); every
  other string, such as \<open>soon\<close>, is not a date.
\<close>

definition sample_parse :: "string \<Rightarrow> int option" where
  "sample_parse = map_of
     [(''2024-01-01'', 1704067200000),
      (''2024-01-02'', 1704153600000),
      (''2024-01-05'', 1704412800000)]"

text \<open>A confirmed booking payload, and a storage holding the booking made from it.\<close>

definition sample_payload :: insert_booking where
  "sample_payload =
     \<lparr> insert_booking.checkinDate = ''2024-01-01'', checkoutDate = ''2024-01-02'',
       guests = 2, guestName = ''Ann'', guestEmail = ''ann@example.com'',
       guestPhone = None, totalAmount = ''969'', status = ''confirmed'' \<rparr>"

definition sample_store :: MemStorage where
  "sample_store = snd (createBooking ''u1'' 1000 sample_payload MemStorage_new)"

text \<open>
  Request bodies: one that is well-formed but for a guest count of 2.5, and one for a
  confirmed booking.
\<close>

definition fractional_body :: json where
  "fractional_body =
     JObj [(''checkinDate'', JStr ''2024-01-01''),
           (''checkoutDate'', JStr ''2024-01-02''),
           (''guests'', JNum (5 / 2)),
           (''guestName'', JStr ''Ann''),
           (''guestEmail'', JStr ''ann@example.com''),
           (''totalAmount'', JStr ''969'')]"

definition confirmed_body :: json where
  "confirmed_body =
     JObj [(''checkinDate'', JStr ''2024-01-01''),
           (''checkoutDate'', JStr ''2024-01-02''),
           (''guests'', JNum 2),
           (''guestName'', JStr ''Ann''),
           (''guestEmail'', JStr ''ann@example.com''),
           (''totalAmount'', JStr ''969''),
           (''status'', JStr ''confirmed'')]"

text \<open>
  The first instant a Date can hold, and an instant one millisecond past midnight some
  410,000 years later, with their time values.
\<close>

definition far_parse :: "string \<Rightarrow> int option" where
  "far_parse = map_of
     [(''-271821-04-20T00:00:00.000Z'', - 8640000000000000),
      (''+138865-05-08T00:00:00.001Z'', 4320000000000001)]"

text \<open>A generator that does not repeat: its values differ in length.\<close>

definition sample_gen :: "nat \<Rightarrow> string" where
  "sample_gen n = ''booking-'' @ replicate n (CHR ''x'')"


section \<open>Properties of the pricing calculator\<close>

text \<open>
  Rounding to binary64: the error is at most half a unit of the grid, integers below
  \<open>2^53\<close> in magnitude are exact, and rounding does not cross an integer while the
  grid is at least as fine as the integers.
\<close>

lemma round_half_even_err: "\<bar>of_int (round_half_even m) - m\<bar> \<le> 1 / 2"
proof -
  have "of_int \<lfloor>m\<rfloor> \<le> m" "m < of_int \<lfloor>m\<rfloor> + 1"
    by linarith+
  then show ?thesis
    by (auto simp: round_half_even_def Let_def)
qed

lemma round_half_even_of_int: "round_half_even (of_int k) = k"
  by (simp add: round_half_even_def)

lemma round_half_even_le:
  assumes "m \<le> of_int M"
  shows "round_half_even m \<le> M"
proof -
  have "of_int (round_half_even m) \<le> m + 1 / 2"
    using round_half_even_err [of m] by linarith
  with assms have "(of_int (round_half_even m) :: rat) < of_int M + 1"
    by linarith
  then have "(of_int (round_half_even m) :: rat) < of_int (M + 1)"
    by simp
  then have "round_half_even m < M + 1"
    by (simp only: of_int_less_iff)
  then show ?thesis by simp
qed

lemma round_half_even_ge:
  assumes "of_int M \<le> m"
  shows "M \<le> round_half_even m"
proof -
  have "m - 1 / 2 \<le> of_int (round_half_even m)"
    using round_half_even_err [of m] by linarith
  with assms have "(of_int M :: rat) - 1 < of_int (round_half_even m)"
    by linarith
  then have "(of_int (M - 1) :: rat) < of_int (round_half_even m)"
    by simp
  then have "M - 1 < round_half_even m"
    by (simp only: of_int_less_iff)
  then show ?thesis by simp
qed

lemma two_powi_bounds_less:
  assumes "(2::rat) powi a \<le> x" and "x < 2 powi b"
  shows "a < b"
proof (rule ccontr)
  assume "\<not> a < b"
  then have "b \<le> a" by simp
  then have "(2::rat) powi b \<le> 2 powi a"
    by (intro power_int_increasing) simp_all
  with assms show False by linarith
qed

lemma find_exponent_less:
  assumes "x < 2 powi E" and "e - int n < E"
  shows "find_exponent n e x < E"
  using assms
proof (induction n arbitrary: e)
  case 0
  then show ?case by simp
next
  case (Suc n)
  show ?case
  proof (cases "2 powi e \<le> x")
    case True
    have "e < E" using True Suc.prems(1) by (rule two_powi_bounds_less)
    with True show ?thesis by simp
  next
    case False
    have "find_exponent n (e - 1) x < E"
      using Suc.prems by (intro Suc.IH) simp_all
    with False show ?thesis by simp
  qed
qed

lemma find_exponent_eq:
  assumes "2 powi E \<le> x" and "x < 2 powi (E + 1)" and "E \<le> e" and "e - int n \<le> E"
  shows "find_exponent n e x = E"
  using assms
proof (induction n arbitrary: e)
  case 0
  then show ?case by simp
next
  case (Suc n)
  show ?case
  proof (cases "2 powi e \<le> x")
    case True
    have "e < E + 1" using True Suc.prems(2) by (rule two_powi_bounds_less)
    with Suc.prems(3) True show ?thesis by simp
  next
    case False
    with Suc.prems(1) have "e \<noteq> E" by auto
    with Suc.prems have "find_exponent n (e - 1) x = E"
      by (intro Suc.IH) simp_all
    with False show ?thesis by simp
  qed
qed

lemma exponent_less:
  assumes "x < 2 powi E" and "- 1022 < E"
  shows "exponent x < E"
  unfolding exponent_def using assms by (intro find_exponent_less) simp_all

lemma exponent_eq:
  assumes "2 powi E \<le> x" and "x < 2 powi (E + 1)" and "- 1022 \<le> E" and "E \<le> 1023"
  shows "exponent x = E"
  unfolding exponent_def using assms by (intro find_exponent_eq) simp_all

lemma fl_err:
  "\<bar>fl x - x\<bar> \<le> 2 powi (exponent \<bar>x\<bar> - 53)"
proof (cases "x = 0")
  case True
  then show ?thesis by (simp add: fl_def)
next
  case False
  define u :: rat where "u = 2 powi (exponent \<bar>x\<bar> - 52)"
  have upos: "0 < u" by (simp add: u_def)
  have half: "u / 2 = 2 powi (exponent \<bar>x\<bar> - 53)"
  proof -
    have "(2::rat) powi (exponent \<bar>x\<bar> - 52) = 2 powi ((exponent \<bar>x\<bar> - 53) + 1)"
      by simp
    also have "\<dots> = 2 powi (exponent \<bar>x\<bar> - 53) * 2"
      by (subst power_int_add) simp_all
    finally show ?thesis by (simp add: u_def)
  qed
  have "fl x - x = u * (of_int (round_half_even (x / u)) - x / u)"
    using False upos by (simp add: fl_def u_def Let_def algebra_simps)
  then have "\<bar>fl x - x\<bar> = u * \<bar>of_int (round_half_even (x / u)) - x / u\<bar>"
    using upos by (simp add: abs_mult)
  also have "\<dots> \<le> u * (1 / 2)"
    using upos round_half_even_err [of "x / u"] by (intro mult_left_mono) simp_all
  finally show ?thesis using half by simp
qed

lemma fl_nonpos: "x \<le> 0 \<Longrightarrow> fl x \<le> 0"
proof -
  assume a: "x \<le> 0"
  define u :: rat where "u = 2 powi (exponent \<bar>x\<bar> - 52)"
  have upos: "0 < u" by (simp add: u_def)
  have "x / u \<le> of_int 0" using a upos by (simp add: divide_le_0_iff)
  then have "round_half_even (x / u) \<le> 0" by (rule round_half_even_le)
  then have "u * of_int (round_half_even (x / u)) \<le> 0"
    using upos by (simp add: mult_le_0_iff)
  then show ?thesis by (simp add: fl_def u_def Let_def)
qed

lemma unit_inverse:
  assumes "e \<le> 52"
  shows "(2::rat) powi (e - 52) = 1 / 2 ^ nat (52 - e)"
proof -
  have "e - 52 = - int (nat (52 - e))" using assms by simp
  then have "(2::rat) powi (e - 52) = 2 powi (- int (nat (52 - e)))" by simp
  also have "\<dots> = 1 / 2 ^ nat (52 - e)"
    by (simp only: power_int_minus_divide power_int_of_nat)
  finally show ?thesis .
qed

lemma fl_of_int:
  assumes "\<bar>n\<bar> < 2 ^ 53"
  shows "fl (of_int n) = of_int n"
proof (cases "n = 0")
  case True
  then show ?thesis by (simp add: fl_def)
next
  case False
  define e where "e = exponent \<bar>of_int n :: rat\<bar>"
  have "\<bar>of_int n :: rat\<bar> < 2 powi 53"
  proof -
    have "(of_int \<bar>n\<bar> :: rat) < of_int (2 ^ 53)"
      using assms by (simp only: of_int_less_iff)
    then show ?thesis by simp
  qed
  then have "e < 53" unfolding e_def by (intro exponent_less) simp_all
  then have e52: "e \<le> 52" by simp
  define k where "k = nat (52 - e)"
  have u: "(2::rat) powi (e - 52) = 1 / 2 ^ k"
    unfolding k_def using e52 by (rule unit_inverse)
  have "of_int n / (1 / 2 ^ k) = (of_int (n * 2 ^ k) :: rat)"
    by simp
  then have r: "round_half_even (of_int n / (1 / 2 ^ k)) = n * 2 ^ k"
    by (simp only: round_half_even_of_int)
  have "fl (of_int n) = (1 / 2 ^ k) * of_int (n * 2 ^ k)"
    using False by (simp only: fl_def Let_def e_def [symmetric] u r) simp
  then show ?thesis by simp
qed

lemma fl_le_int:
  assumes "x \<le> of_int M" and "exponent \<bar>x\<bar> \<le> 52"
  shows "fl x \<le> of_int M"
proof (cases "x = 0")
  case True
  with assms show ?thesis by (simp add: fl_def)
next
  case False
  define k where "k = nat (52 - exponent \<bar>x\<bar>)"
  have u: "(2::rat) powi (exponent \<bar>x\<bar> - 52) = 1 / 2 ^ k"
    unfolding k_def using assms(2) by (rule unit_inverse)
  have "x / (1 / 2 ^ k) \<le> of_int (M * 2 ^ k)"
    using assms(1) by (simp add: mult_right_mono)
  then have "round_half_even (x / (1 / 2 ^ k)) \<le> M * 2 ^ k"
    by (rule round_half_even_le)
  then have "(of_int (round_half_even (x / (1 / 2 ^ k))) :: rat) \<le> of_int (M * 2 ^ k)"
    by (simp only: of_int_le_iff)
  then have "(1 / 2 ^ k) * (of_int (round_half_even (x / (1 / 2 ^ k))) :: rat)
               \<le> (1 / 2 ^ k) * of_int (M * 2 ^ k)"
    by (intro mult_left_mono) simp_all
  also have "\<dots> = of_int M" by simp
  finally show ?thesis
    using False by (simp only: fl_def Let_def u) simp
qed

text \<open>Arithmetic on integers stays exact while the result is below \<open>2^53\<close>.\<close>

lemma literal_int:
  assumes "\<bar>n\<bar> < 2 ^ 53"
  shows "literal (of_int n) = Fin (of_int n)"
  using assms by (simp add: literal_def fl_of_int)

lemma literal_values:
  "literal 0 = Fin 0" "literal 24 = Fin 24" "literal 60 = Fin 60"
  "literal 850 = Fin 850" "literal 1000 = Fin 1000"
  using literal_int [of 0] literal_int [of 24] literal_int [of 60]
    literal_int [of 850] literal_int [of 1000]
  by simp_all

lemma js_mul_int:
  assumes "\<bar>a * b\<bar> < 2 ^ 53"
  shows "js_mul (Fin (of_int a)) (Fin (of_int b)) = Fin (of_int (a * b))"
  using fl_of_int [OF assms] by simp

lemma js_add_int:
  assumes "\<bar>a + b\<bar> < 2 ^ 53"
  shows "js_add (Fin (of_int a)) (Fin (of_int b)) = Fin (of_int (a + b))"
  using fl_of_int [OF assms] by simp

lemma js_sub_int:
  assumes "\<bar>a - b\<bar> < 2 ^ 53"
  shows "js_sub (Fin (of_int a)) (Fin (of_int b)) = Fin (of_int (a - b))"
  using fl_of_int [OF assms] by simp

lemma day_ms:
  "js_mul (js_mul (js_mul (literal 1000) (literal 60)) (literal 60)) (literal 24)
     = Fin 86400000"
proof -
  have a: "js_mul (Fin 1000) (Fin 60) = Fin 60000"
    using js_mul_int [of 1000 60] by simp
  have b: "js_mul (Fin 60000) (Fin 60) = Fin 3600000"
    using js_mul_int [of 60000 60] by simp
  have c: "js_mul (Fin 3600000) (Fin 24) = Fin 86400000"
    using js_mul_int [of 3600000 24] by simp
  show ?thesis
    by (simp only: literal_values a b c)
qed

text \<open>
  The night count: for a difference below \<open>2^53\<close> the quotient is below \<open>2^27\<close>, where
  the rounding error is under \<open>2^-27\<close>, less than the \<open>1/86400000\<close> by which a quotient
  that is not whole exceeds the integer below it. So the ceiling of the rounded quotient
  is the ceiling of the exact one.
\<close>

lemma ceil_fl_quotient:
  assumes "0 < d" and "d < 2 ^ 53"
  shows "\<lceil>fl (of_int d / 86400000)\<rceil> = \<lceil>(of_int d :: rat) / 86400000\<rceil>"
proof -
  define q :: rat where "q = of_int d / 86400000"
  define k where "k = \<lceil>q\<rceil> - 1"
  have dr: "(of_int d :: rat) < 2 ^ 53"
  proof -
    have "(of_int d :: rat) < of_int (2 ^ 53)"
      using assms(2) by (simp only: of_int_less_iff)
    then show ?thesis by simp
  qed
  have qpos: "0 < q" using assms(1) by (simp add: q_def)
  have "q < 2 ^ 53 / 86400000" using dr by (simp add: q_def)
  also have "\<dots> < 2 powi 27" by simp
  finally have qlt: "\<bar>q\<bar> < 2 powi 27" using qpos by simp
  then have "exponent \<bar>q\<bar> < 27" by (intro exponent_less) simp_all
  then have e26: "exponent \<bar>q\<bar> \<le> 26" by simp
  have ub: "fl q \<le> of_int (k + 1)"
  proof (rule fl_le_int)
    show "q \<le> of_int (k + 1)"
      using ceiling_correct [of q] by (simp add: k_def)
    show "exponent \<bar>q\<bar> \<le> 52" using e26 by simp
  qed
  have kq: "of_int k < q"
    using ceiling_correct [of q] by (simp add: k_def)
  then have "(of_int (k * 86400000) :: rat) < of_int d"
    by (simp add: q_def field_simps)
  then have "k * 86400000 < d" by (simp only: of_int_less_iff)
  then have "k * 86400000 + 1 \<le> d" by simp
  then have "(of_int (k * 86400000 + 1) :: rat) \<le> of_int d"
    by (simp only: of_int_le_iff)
  then have gap: "of_int k + 1 / 86400000 \<le> q"
    by (simp add: q_def field_simps)
  have "\<bar>fl q - q\<bar> \<le> 2 powi (exponent \<bar>q\<bar> - 53)" by (rule fl_err)
  also have "\<dots> \<le> 2 powi (26 - 53)"
    using e26 by (intro power_int_increasing) simp_all
  also have "\<dots> < 1 / 86400000" by simp
  finally have "q - 1 / 86400000 < fl q" by linarith
  with gap have lb: "of_int k < fl q" by linarith
  have "\<lceil>fl q\<rceil> = k + 1"
    using lb ub by (intro ceiling_unique) simp_all
  then show ?thesis by (simp add: k_def q_def)
qed

text \<open>
  The percentages: the literal and the product are each rounded, and for fewer than
  \<open>2^28\<close> nights both errors together stay far below one half, so \<open>Math.round\<close>
  returns the exact 6 or 8 percent, which is a whole number.
\<close>

lemma percent_rounds:
  assumes "0 < n" and "n < 2 ^ 28" and "0 < r" and "r < 1 / 8"
    and "850 * r = of_int m"
  shows "Math_round (js_mul (Fin (of_int (850 * n))) (literal r)) = Fin (of_int (m * n))"
proof -
  define c where "c = fl r"
  define P where "P = of_int (850 * n) * c"
  have nr: "(of_int n :: rat) < 2 ^ 28" "0 < (of_int n :: rat)"
  proof -
    have "(of_int n :: rat) < of_int (2 ^ 28)"
      using assms(2) by (simp only: of_int_less_iff)
    then show "(of_int n :: rat) < 2 ^ 28" by simp
    show "0 < (of_int n :: rat)" using assms(1) by simp
  qed
  have "\<bar>r\<bar> < 2 powi (- 3)" using assms(3,4) by simp
  then have "exponent \<bar>r\<bar> < - 3" by (intro exponent_less) simp_all
  then have er: "exponent \<bar>r\<bar> - 53 \<le> - 57" by simp
  have "\<bar>c - r\<bar> \<le> 2 powi (exponent \<bar>r\<bar> - 53)"
    unfolding c_def by (rule fl_err)
  also have "\<dots> \<le> 2 powi (- 57)"
    using er by (intro power_int_increasing) simp_all
  finally have cerr: "\<bar>c - r\<bar> \<le> 1 / 2 ^ 57" by simp
  define X :: rat where "X = of_int (m * n)"
  have mn: "X = of_int (850 * n) * r"
    using assms(5) by (simp add: X_def algebra_simps)
  have "P - X = of_int (850 * n) * (c - r)"
    unfolding P_def mn by (simp only: right_diff_distrib)
  then have "\<bar>P - X\<bar> = of_int (850 * n) * \<bar>c - r\<bar>"
    using assms(1) by (simp add: abs_mult)
  also have "\<dots> \<le> of_int (850 * n) * (1 / 2 ^ 57)"
    using cerr assms(1) by (intro mult_left_mono) simp_all
  also have "\<dots> \<le> 1 / 2 ^ 19"
    using nr by simp
  finally have perr: "\<bar>P - X\<bar> \<le> 1 / 2 ^ 19" .
  have mpos: "0 < (of_int m :: rat)" "(of_int m :: rat) < 107"
    using assms(3,4,5) by linarith+
  have "X = of_int m * of_int n" by (simp add: X_def)
  also have "\<dots> < 107 * 2 ^ 28"
    using mpos nr by (intro mult_strict_mono) simp_all
  finally have mnb: "X < 28722593792" by simp
  have mn0: "0 \<le> X"
    using mpos nr by (simp add: X_def)
  have p1: "P - X \<le> 1 / 524288"
    using abs_le_D1 [OF perr] by simp
  have p2: "X - P \<le> 1 / 524288"
    using abs_le_D2 [OF perr] by simp
  have "P < 68719476736" and "- P < 68719476736"
    using p1 p2 mnb mn0 by linarith+
  then have "\<bar>P\<bar> < 2 powi 36"
    by (simp add: abs_less_iff)
  then have "exponent \<bar>P\<bar> < 36" by (intro exponent_less) simp_all
  then have eP: "exponent \<bar>P\<bar> - 53 \<le> - 18" by simp
  have "\<bar>fl P - P\<bar> \<le> 2 powi (exponent \<bar>P\<bar> - 53)" by (rule fl_err)
  also have "\<dots> \<le> 2 powi (- 18)"
    using eP by (intro power_int_increasing) simp_all
  finally have ferr: "\<bar>fl P - P\<bar> \<le> 1 / 262144" by simp
  have f1: "fl P - P \<le> 1 / 262144"
    using abs_le_D1 [OF ferr] by simp
  have f2: "P - fl P \<le> 1 / 262144"
    using abs_le_D2 [OF ferr] by simp
  have lo: "of_int (m * n) \<le> fl P + 1 / 2"
    using f2 p2 unfolding X_def by linarith
  have hi: "fl P + 1 / 2 < of_int (m * n) + 1"
    using f1 p1 unfolding X_def by linarith
  have "\<lfloor>fl P + 1 / 2\<rfloor> = m * n"
    using lo hi by (rule floor_unique)
  then show ?thesis
    by (simp add: literal_def c_def P_def)
qed

lemma total_of_nights:
  assumes "0 < n" and "n < 2 ^ 28"
  shows "(let nights = Fin (of_int n) in
          if js_le nights (literal 0) then literal 0
          else
            let basePrice = literal 850;
                subtotal = js_mul basePrice nights;
                serviceFee = Math_round (js_mul subtotal (literal (6 / 100)));
                taxes = Math_round (js_mul subtotal (literal (8 / 100)))
            in js_add (js_add subtotal serviceFee) taxes)
         = Fin (of_int (969 * n))"
proof -
  have pos: "\<not> js_le (Fin (of_int n)) (literal 0)"
    using assms(1) by (simp add: literal_values)
  have sub: "js_mul (literal 850) (Fin (of_int n)) = Fin (of_int (850 * n))"
    using js_mul_int [of 850 n] assms by (simp add: literal_values)
  have fee: "Math_round (js_mul (Fin (of_int (850 * n))) (literal (6 / 100)))
               = Fin (of_int (51 * n))"
    using assms by (intro percent_rounds) simp_all
  have tax: "Math_round (js_mul (Fin (of_int (850 * n))) (literal (8 / 100)))
               = Fin (of_int (68 * n))"
    using assms by (intro percent_rounds) simp_all
  have s1: "js_add (Fin (of_int (850 * n))) (Fin (of_int (51 * n))) = Fin (of_int (901 * n))"
    using js_add_int [of "850 * n" "51 * n"] assms by simp
  have s2: "js_add (Fin (of_int (901 * n))) (Fin (of_int (68 * n))) = Fin (of_int (969 * n))"
    using js_add_int [of "901 * n" "68 * n"] assms by simp
  show ?thesis
    by (simp only: Let_def pos if_False sub fee tax s1 s2)
qed

lemma round_half_up_floor: "round_half_up x = \<lfloor>x + 1 / 2\<rfloor>"
proof (cases "frac x < 1 / 2")
  case True
  have "\<lfloor>x + 1 / 2\<rfloor> = \<lfloor>x\<rfloor>"
  proof (rule floor_unique)
    show "of_int \<lfloor>x\<rfloor> \<le> x + 1 / 2"
      using of_int_floor_le [of x] by linarith
    show "x + 1 / 2 < of_int \<lfloor>x\<rfloor> + 1"
      using True by (simp add: frac_def)
  qed
  with True show ?thesis by (simp add: round_half_up_def)
next
  case False
  have notint: "x \<notin> \<int>"
  proof
    assume "x \<in> \<int>"
    then have "frac x = 0" by simp
    with False show False by simp
  qed
  then have "x \<noteq> of_int \<lfloor>x\<rfloor>" by (metis Ints_of_int)
  then have c: "\<lceil>x\<rceil> = \<lfloor>x\<rfloor> + 1" by (simp add: ceiling_altdef)
  have "\<lfloor>x + 1 / 2\<rfloor> = \<lfloor>x\<rfloor> + 1"
  proof (rule floor_unique)
    show "of_int (\<lfloor>x\<rfloor> + 1) \<le> x + 1 / 2"
      using False by (simp add: frac_def)
    show "x + 1 / 2 < of_int (\<lfloor>x\<rfloor> + 1) + 1"
      using floor_correct [of x] by simp
  qed
  with False c show ?thesis by (simp add: round_half_up_def)
qed

lemma round_half_up_of_int: "round_half_up (of_int k) = k"
  unfolding round_half_up_floor by (rule floor_unique) simp_all

lemma spec_total_969: "spec_total n = 969 * n"
proof -
  have a: "(of_int (850 * n) :: rat) * (6 / 100) = of_int (51 * n)" by simp
  have b: "(of_int (850 * n) :: rat) * (8 / 100) = of_int (68 * n)" by simp
  show ?thesis
    unfolding spec_total_def Let_def a b round_half_up_of_int by simp
qed

lemma spec_nights_pos: "tin < tout \<Longrightarrow> 0 < spec_nights tin tout"
  by (simp add: spec_nights_def)

lemma spec_nights_bound:
  assumes "tout - tin < 2 ^ 53"
  shows "spec_nights tin tout < 2 ^ 28"
proof -
  have "(of_int (tout - tin) :: rat) < of_int (2 ^ 53)"
    using assms by (simp only: of_int_less_iff)
  then have "(of_int (tout - tin) :: rat) / 86400000 \<le> of_int (2 ^ 27)"
    by simp
  then have "spec_nights tin tout \<le> 2 ^ 27"
    unfolding spec_nights_def by (simp only: ceiling_le_iff)
  then show ?thesis by simp
qed

lemma nights_of_parsed:
  assumes "parse checkin = Some tin" and "parse checkout = Some tout"
    and "tin < tout" and "tout - tin < 2 ^ 53"
  shows "nights_of parse checkin checkout = Fin (of_int (spec_nights tin tout))"
proof -
  have d: "\<bar>tout - tin\<bar> < 2 ^ 53" using assms(3,4) by simp
  have pos: "0 < tout - tin" using assms(3) by simp
  have "nights_of parse checkin checkout
          = Math_ceil (js_div (js_sub (Fin (of_int tout)) (Fin (of_int tin))) (Fin 86400000))"
    using assms(1,2) by (simp only: nights_of_def getTime_def day_ms option.case)
  also have "\<dots> = Math_ceil (js_div (Fin (of_int (tout - tin))) (Fin 86400000))"
    by (simp only: js_sub_int [OF d])
  also have "\<dots> = Fin (of_int \<lceil>fl (of_int (tout - tin) / 86400000)\<rceil>)"
    by simp
  also have "\<dots> = Fin (of_int (spec_nights tin tout))"
    by (simp only: ceil_fl_quotient [OF pos assms(4)] spec_nights_def)
  finally show ?thesis .
qed

lemma calculateTotal_of_nights:
  assumes "checkin \<noteq> []" and "checkout \<noteq> []"
    and "nights_of parse checkin checkout = Fin (of_int n)"
    and "0 < n" and "n < 2 ^ 28"
  shows "calculateTotal parse checkin checkout g = Fin (of_int (969 * n))"
proof -
  have "calculateTotal parse checkin checkout g =
      (let nights = Fin (of_int n) in
          if js_le nights (literal 0) then literal 0
          else
            let basePrice = literal 850;
                subtotal = js_mul basePrice nights;
                serviceFee = Math_round (js_mul subtotal (literal (6 / 100)));
                taxes = Math_round (js_mul subtotal (literal (8 / 100)))
            in js_add (js_add subtotal serviceFee) taxes)"
    using assms(1,2) by (simp add: calculateTotal_def assms(3))
  then show ?thesis
    by (simp only: total_of_nights [OF assms(4,5)])
qed

lemma fl_odd_above_2_53: "fl 12960000000000001 = 12960000000000000"
proof -
  have e: "exponent 12960000000000001 = 53"
    by (rule exponent_eq) simp_all
  have f: "\<lfloor>(12960000000000001::rat) / 2\<rfloor> = 6480000000000000"
    by (rule floor_unique) simp_all
  have r: "round_half_even (12960000000000001 / 2) = 6480000000000000"
    by (simp add: round_half_even_def Let_def f)
  show ?thesis
    by (simp add: fl_def Let_def e r)
qed

text \<open>
  C1, as stated, fails for dates far apart. Between the first instant a Date can hold
  and one millisecond past midnight some 410,000 years later the difference of the
  time values, 12960000000000001, exceeds \<open>2^53\<close> and is odd, so the subtraction
  rounds it to 12960000000000000: the code counts 150000000 nights and returns
  145350000000, where the ceiling of the exact difference is 150000001 nights and the
  claimed total 145350000969.
\<close>

theorem C1_far_dates_counterexample:
  "far_parse ''-271821-04-20T00:00:00.000Z'' = Some (- 8640000000000000)
   \<and> far_parse ''+138865-05-08T00:00:00.001Z'' = Some 4320000000000001
   \<and> calculateTotal far_parse ''-271821-04-20T00:00:00.000Z''
         ''+138865-05-08T00:00:00.001Z'' (Fin 2) = Fin 145350000000
   \<and> spec_nights (- 8640000000000000) 4320000000000001 = 150000001
   \<and> spec_total (spec_nights (- 8640000000000000) 4320000000000001) = 145350000969
   \<and> calculateTotal far_parse ''-271821-04-20T00:00:00.000Z''
         ''+138865-05-08T00:00:00.001Z'' (Fin 2)
       \<noteq> Fin (of_int (spec_total (spec_nights (- 8640000000000000) 4320000000000001)))"
proof -
  let ?a = "''-271821-04-20T00:00:00.000Z''"
  let ?b = "''+138865-05-08T00:00:00.001Z''"
  have pa: "far_parse ?a = Some (- 8640000000000000)"
    and pb: "far_parse ?b = Some 4320000000000001"
    by (simp_all add: far_parse_def)
  have sub: "js_sub (Fin 4320000000000001) (Fin (- 8640000000000000)) = Fin 12960000000000000"
    by (simp add: fl_odd_above_2_53)
  have quo: "fl 150000000 = 150000000"
    using fl_of_int [of 150000000] by simp
  have "nights_of far_parse ?a ?b
          = Math_ceil (js_div (js_sub (Fin 4320000000000001) (Fin (- 8640000000000000)))
                        (Fin 86400000))"
    by (simp add: nights_of_def getTime_def day_ms pa pb)
  also have "\<dots> = Math_ceil (js_div (Fin 12960000000000000) (Fin 86400000))"
    by (simp only: sub)
  also have "\<dots> = Fin (of_int 150000000)"
    by (simp add: quo)
  finally have n: "nights_of far_parse ?a ?b = Fin (of_int 150000000)" .
  have tot: "calculateTotal far_parse ?a ?b (Fin 2) = Fin 145350000000"
    using calculateTotal_of_nights [of ?a ?b far_parse 150000000 "Fin 2", OF _ _ n]
    by simp
  have "\<lceil>(12960000000000001::rat) / 86400000\<rceil> = 150000001"
    by (rule ceiling_unique) simp_all
  then have sn: "spec_nights (- 8640000000000000) 4320000000000001 = 150000001"
    by (simp add: spec_nights_def)
  have st: "spec_total (spec_nights (- 8640000000000000) 4320000000000001) = 145350000969"
    by (simp add: sn spec_total_969)
  have ne: "calculateTotal far_parse ?a ?b (Fin 2)
       \<noteq> Fin (of_int (spec_total (spec_nights (- 8640000000000000) 4320000000000001)))"
    by (simp add: tot st)
  from pa pb tot sn st ne show ?thesis by (intro conjI)
qed

text \<open>
  C1, amended. For non-empty date strings that both parse, with the checkout instant
  strictly after the checkin instant and less than \<open>2^53\<close> milliseconds after it, the
  calculator returns subtotal + serviceFee + taxes, where nights is the ceiling of the
  difference in whole days, subtotal is 850 times nights, and fee and taxes are 6 and 8
  percent of the subtotal, each rounded half-up on its own. The night count is positive,
  the total is 969 per night, and a checkout exactly one day after checkin costs 969.
\<close>

theorem C1_calculateTotal_formula:
  assumes "checkin \<noteq> []" and "checkout \<noteq> []"
    and "parse checkin = Some tin" and "parse checkout = Some tout"
    and "tin < tout" and "tout - tin < 2 ^ 53"
  shows "calculateTotal parse checkin checkout g
           = Fin (of_int (spec_total (spec_nights tin tout)))
         \<and> 0 < spec_nights tin tout
         \<and> spec_total (spec_nights tin tout) = 969 * spec_nights tin tout
         \<and> (tout = tin + 86400000 \<longrightarrow>
              calculateTotal parse checkin checkout g = Fin 969)"
proof -
  have pos: "0 < spec_nights tin tout"
    using assms(5) by (rule spec_nights_pos)
  have bnd: "spec_nights tin tout < 2 ^ 28"
    using assms(6) by (rule spec_nights_bound)
  have n: "nights_of parse checkin checkout = Fin (of_int (spec_nights tin tout))"
    using assms(3-6) by (rule nights_of_parsed)
  have tot: "calculateTotal parse checkin checkout g
               = Fin (of_int (spec_total (spec_nights tin tout)))"
    using calculateTotal_of_nights [OF assms(1,2) n pos bnd]
    by (simp only: spec_total_969)
  have one: "spec_nights tin (tin + 86400000) = 1"
    by (simp add: spec_nights_def)
  have day: "tout = tin + 86400000 \<longrightarrow>
      calculateTotal parse checkin checkout g = Fin 969"
    using tot one by (auto simp: spec_total_969)
  from tot pos day show ?thesis
    by (simp add: spec_total_969)
qed

theorem C1_calculateTotal_formula_witness:
  "calculateTotal sample_parse ''2024-01-01'' ''2024-01-02'' (Fin 2) = Fin 969
   \<and> calculateTotal sample_parse ''2024-01-01'' ''2024-01-05'' (Fin 2) = Fin 3876"
proof -
  have p1: "sample_parse ''2024-01-01'' = Some 1704067200000"
    by (simp add: sample_parse_def)
  have p2: "sample_parse ''2024-01-02'' = Some 1704153600000"
    by (simp add: sample_parse_def)
  have p5: "sample_parse ''2024-01-05'' = Some 1704412800000"
    by (simp add: sample_parse_def)
  have n1: "''2024-01-01'' \<noteq> []" and n2: "''2024-01-02'' \<noteq> []"
    and n5: "''2024-01-05'' \<noteq> []"
    by simp_all
  have l2: "(1704067200000::int) < 1704153600000"
    and l5: "(1704067200000::int) < 1704412800000"
    by simp_all
  have s2: "(1704153600000::int) - 1704067200000 < 2 ^ 53"
    and s5: "(1704412800000::int) - 1704067200000 < 2 ^ 53"
    by simp_all
  have day: "(1704153600000::int) = 1704067200000 + 86400000"
    by simp
  have four: "spec_nights 1704067200000 1704412800000 = 4"
    by (simp add: spec_nights_def)
  have a: "calculateTotal sample_parse ''2024-01-01'' ''2024-01-02'' (Fin 2) = Fin 969"
    using C1_calculateTotal_formula [OF n1 n2 p1 p2 l2 s2, of "Fin 2"] day by blast
  have "calculateTotal sample_parse ''2024-01-01'' ''2024-01-05'' (Fin 2)
          = Fin (of_int (spec_total (spec_nights 1704067200000 1704412800000)))"
    using C1_calculateTotal_formula [OF n1 n5 p1 p5 l5 s5, of "Fin 2"] by blast
  then have b:
    "calculateTotal sample_parse ''2024-01-01'' ''2024-01-05'' (Fin 2) = Fin 3876"
    by (simp add: four spec_total_969)
  from a b show ?thesis by simp
qed

text \<open>
  C2, as stated, fails: a non-empty string that does not parse makes the night count
  \<open>NaN\<close>, the test \<open>nights <= 0\<close> is then false, and the result is \<open>NaN\<close>, not 0.
\<close>

theorem C2_unparseable_counterexample:
  "sample_parse ''soon'' = None
   \<and> calculateTotal sample_parse ''soon'' ''2024-01-02'' (Fin 2) = NaN
   \<and> calculateTotal sample_parse ''soon'' ''2024-01-02'' (Fin 2) \<noteq> Fin 0"
proof -
  have p: "sample_parse ''soon'' = None"
    by (simp add: sample_parse_def)
  have n: "nights_of sample_parse ''soon'' ''2024-01-02'' = NaN"
    by (simp add: nights_of_def getTime_def p day_ms split: option.splits)
  have "calculateTotal sample_parse ''soon'' ''2024-01-02'' (Fin 2) = NaN"
    by (simp add: calculateTotal_def n)
  with p show ?thesis by simp
qed

lemma nights_of_not_after:
  assumes "parse checkin = Some tin" and "parse checkout = Some tout" and "tout \<le> tin"
  shows "\<exists>v. nights_of parse checkin checkout = Fin v \<and> v \<le> 0"
proof -
  have d: "(of_int tout :: rat) - of_int tin \<le> 0" using assms(3) by simp
  then have "fl (of_int tout - of_int tin) \<le> 0" by (rule fl_nonpos)
  then have "fl (of_int tout - of_int tin) / 86400000 \<le> 0"
    by (simp add: divide_le_0_iff)
  then have "fl (fl (of_int tout - of_int tin) / 86400000) \<le> 0" by (rule fl_nonpos)
  then have c: "\<lceil>fl (fl (of_int tout - of_int tin) / 86400000)\<rceil> \<le> 0"
    by (simp only: ceiling_le_iff of_int_0)
  have "nights_of parse checkin checkout
          = Fin (of_int \<lceil>fl (fl (of_int tout - of_int tin) / 86400000)\<rceil>)"
    using assms(1,2) by (simp add: nights_of_def getTime_def day_ms)
  with c show ?thesis by simp
qed

text \<open>
  C2, amended. When either date string is missing (empty), or when both are non-empty,
  both parse, and the checkout instant is not after the checkin instant, the result
  is 0.
\<close>

theorem C2_calculateTotal_zero:
  "(checkin = [] \<or> checkout = [] \<longrightarrow>
      calculateTotal parse checkin checkout g = Fin 0)
   \<and> (parse checkin = Some tin \<and> parse checkout = Some tout \<and> tout \<le> tin \<longrightarrow>
      calculateTotal parse checkin checkout g = Fin 0)"
proof -
  have a: "checkin = [] \<or> checkout = [] \<longrightarrow>
      calculateTotal parse checkin checkout g = Fin 0"
    by (simp add: calculateTotal_def literal_values)
  have b: "calculateTotal parse checkin checkout g = Fin 0"
    if h: "parse checkin = Some tin \<and> parse checkout = Some tout \<and> tout \<le> tin"
  proof (cases "checkin = [] \<or> checkout = []")
    case True
    with a show ?thesis by blast
  next
    case False
    from h obtain v where "nights_of parse checkin checkout = Fin v" and "v \<le> 0"
      using nights_of_not_after by blast
    with False show ?thesis
      by (simp add: calculateTotal_def literal_values)
  qed
  from a b show ?thesis by blast
qed

theorem C2_calculateTotal_zero_witness:
  "calculateTotal sample_parse [] ''2024-01-02'' (Fin 2) = Fin 0
   \<and> calculateTotal sample_parse ''2024-01-05'' ''2024-01-02'' (Fin 2) = Fin 0
   \<and> calculateTotal sample_parse ''2024-01-02'' ''2024-01-02'' (Fin 2) = Fin 0"
proof -
  have p2: "sample_parse ''2024-01-02'' = Some 1704153600000"
    by (simp add: sample_parse_def)
  have p5: "sample_parse ''2024-01-05'' = Some 1704412800000"
    by (simp add: sample_parse_def)
  have a: "calculateTotal sample_parse [] ''2024-01-02'' (Fin 2) = Fin 0"
    using C2_calculateTotal_zero [of "[]" "''2024-01-02''" sample_parse "Fin 2"]
    by simp
  have b: "calculateTotal sample_parse ''2024-01-05'' ''2024-01-02'' (Fin 2) = Fin 0"
    using C2_calculateTotal_zero
      [of "''2024-01-05''" "''2024-01-02''" sample_parse "Fin 2"
          1704412800000 1704153600000] p2 p5
    by simp
  have c: "calculateTotal sample_parse ''2024-01-02'' ''2024-01-02'' (Fin 2) = Fin 0"
    using C2_calculateTotal_zero
      [of "''2024-01-02''" "''2024-01-02''" sample_parse "Fin 2"
          1704153600000 1704153600000] p2
    by simp
  from a b c show ?thesis by simp
qed

text \<open>
  C10. The guests argument has no influence on the price: for fixed date strings any
  two guest counts give the same total.
\<close>

theorem C10_guests_irrelevant:
  "calculateTotal parse checkin checkout g1 = calculateTotal parse checkin checkout g2"
  by (simp add: calculateTotal_def)

theorem C10_guests_irrelevant_witness:
  "calculateTotal sample_parse ''2024-01-01'' ''2024-01-02'' (Fin 1)
     = calculateTotal sample_parse ''2024-01-01'' ''2024-01-02'' (Fin 10)"
  using C10_guests_irrelevant
    [of sample_parse "''2024-01-01''" "''2024-01-02''" "Fin 1" "Fin 10"]
  by simp

section \<open>Properties of the storage\<close>

lemma Map_get_set_same: "Map_get (Map_set m k v) k = Some v"
  by (induction m) (auto simp: Map_get_def)

lemma Map_get_set_other: "k' \<noteq> k \<Longrightarrow> Map_get (Map_set m k v) k' = Map_get m k'"
  by (induction m) (auto simp: Map_get_def)

lemma Map_set_fresh: "Map_get m k = None \<Longrightarrow> Map_set m k v = m @ [(k, v)]"
  by (induction m) (auto simp: Map_get_def)

lemma override_None: "override old None = old"
  by (simp add: override_def)

lemma override_Some: "override old (Some v) = v"
  by (simp add: override_def)

lemma insert_sorted_insort:
  "insert_sorted (\<lambda>a b. f b - f a) x ys = insort_key (\<lambda>b. - f b) x ys"
  for f :: "'a \<Rightarrow> int"
  by (induction ys) auto

lemma Array_sort_sort_key:
  "Array_sort (\<lambda>a b. f b - f a) xs = sort_key (\<lambda>b. - f b) xs"
  for f :: "'a \<Rightarrow> int"
  by (induction xs) (simp_all add: Array_sort_def insert_sorted_insort)

lemma getBookings_sort_key:
  "getBookings st = sort_key (\<lambda>b. - createdAt b) (Map_values (bookings st))"
  by (simp add: getBookings_def Array_sort_sort_key)

lemma getBookings_mset: "mset (getBookings st) = mset (Map_values (bookings st))"
  by (simp add: getBookings_sort_key)

lemma getBookings_descending:
  "sorted_wrt (\<lambda>a b. createdAt b \<le> createdAt a) (getBookings st)"
proof -
  have "sorted (map (\<lambda>b. - createdAt b) (getBookings st))"
    by (simp add: getBookings_sort_key)
  then show ?thesis
    by (simp add: sorted_map)
qed

lemma getBookings_stable:
  "filter (\<lambda>b. createdAt b = t) (getBookings st)
     = filter (\<lambda>b. createdAt b = t) (Map_values (bookings st))"
proof -
  have "filter (\<lambda>b. - createdAt b = - t) (getBookings st)
          = filter (\<lambda>b. - createdAt b = - t) (Map_values (bookings st))"
    unfolding getBookings_sort_key by (rule sort_key_stable)
  then show ?thesis by simp
qed

lemma createBooking_fst:
  "fst (createBooking uuid now p st) =
     \<lparr> bid = uuid,
       checkinDate = insert_booking.checkinDate p,
       checkoutDate = insert_booking.checkoutDate p,
       guests = insert_booking.guests p,
       guestName = insert_booking.guestName p,
       guestEmail = insert_booking.guestEmail p,
       guestPhone = or_null (insert_booking.guestPhone p),
       totalAmount = insert_booking.totalAmount p,
       status = JStr (insert_booking.status p),
       createdAt = now \<rparr>"
  by (simp add: createBooking_def Let_def)

lemma createBooking_snd:
  "bookings (snd (createBooking uuid now p st))
     = Map_set (bookings st) uuid (fst (createBooking uuid now p st))"
  by (simp add: createBooking_def Let_def)

lemma or_null_cases:
  "or_null x = (if x = Some [] then None else x)"
  by (simp add: or_null_def split: option.splits)

text \<open>
  Every key of the bookings map has been drawn from the generator, and the keys are
  distinct: both hold at the start and are kept by every call.
\<close>

lemma keys_Map_set: "keys (Map_set m k v) = insert k (keys m)"
proof (induction m)
  case Nil
  show ?case by (simp add: keys_def)
next
  case (Cons a m)
  obtain k' v' where a: "a = (k', v')" by (cases a)
  show ?case
  proof (cases "k' = k")
    case True
    then show ?thesis by (simp add: a keys_def)
  next
    case False
    have "keys ((k', v') # Map_set m k v) = insert k' (keys (Map_set m k v))"
      by (simp add: keys_def)
    also have "\<dots> = insert k (insert k' (keys m))"
      unfolding Cons.IH by blast
    also have "insert k' (keys m) = keys ((k', v') # m)"
      by (simp add: keys_def)
    finally show ?thesis using False by (simp add: a)
  qed
qed

lemma distinct_Map_set:
  "distinct (map fst m) \<Longrightarrow> distinct (map fst (Map_set m k v))"
proof (induction m)
  case Nil
  then show ?case by simp
next
  case (Cons a m)
  obtain k' v' where a: "a = (k', v')" by (cases a)
  have "set (map fst (Map_set m k v)) = insert k (set (map fst m))"
    using keys_Map_set [of m k v] by (simp add: keys_def)
  with Cons a show ?case by auto
qed

lemma Map_get_None_iff: "Map_get m k = None \<longleftrightarrow> k \<notin> keys m"
  by (simp add: Map_get_def keys_def map_of_eq_None_iff)

lemma create_unfold:
  "create gen now p w =
     (fst (createBooking (gen (drawn w)) now p (storage w)),
      \<lparr> storage = snd (createBooking (gen (drawn w)) now p (storage w)),
        drawn = Suc (drawn w) \<rparr>)"
  by (simp add: create_def randomUUID_def split: prod.splits)

lemma step_invariant:
  assumes "keys (bookings (storage w)) \<subseteq> gen ` {..<drawn w}"
    and "distinct (map fst (bookings (storage w)))"
  shows "keys (bookings (storage (step gen w c))) \<subseteq> gen ` {..<drawn (step gen w c)}
         \<and> distinct (map fst (bookings (storage (step gen w c))))"
proof (cases c)
  case (Create now p)
  have "gen ` {..<drawn w} \<subseteq> gen ` {..<Suc (drawn w)}" by auto
  with assms Create show ?thesis
    by (auto simp: create_unfold createBooking_snd keys_Map_set distinct_Map_set)
next
  case (Update i u)
  show ?thesis
  proof (cases "Map_get (bookings (storage w)) i")
    case None
    with assms Update show ?thesis by (simp add: updateBooking_def)
  next
    case (Some existing)
    then have "i \<in> keys (bookings (storage w))"
      using Map_get_None_iff [of "bookings (storage w)" i] by auto
    with assms Update Some show ?thesis
      by (auto simp: updateBooking_def Let_def keys_Map_set distinct_Map_set)
  qed
next
  case Draw
  have "gen ` {..<drawn w} \<subseteq> gen ` {..<Suc (drawn w)}" by auto
  with assms Draw show ?thesis
    by (auto simp: randomUUID_def)
qed

lemma run_invariant:
  "keys (bookings (storage (run gen calls))) \<subseteq> gen ` {..<drawn (run gen calls)}
   \<and> distinct (map fst (bookings (storage (run gen calls))))"
proof (induction calls rule: rev_induct)
  case Nil
  show ?case by (simp add: run_def MemStorage_new_def keys_def)
next
  case (snoc c calls)
  have "run gen (calls @ [c]) = step gen (run gen calls) c"
    by (simp add: run_def)
  with snoc show ?case
    using step_invariant [of "run gen calls" gen c] by simp
qed

lemma drawn_fresh:
  assumes "inj gen"
  shows "gen (drawn (run gen calls)) \<notin> keys (bookings (storage (run gen calls)))"
proof
  assume "gen (drawn (run gen calls)) \<in> keys (bookings (storage (run gen calls)))"
  with run_invariant [of gen calls]
  have "gen (drawn (run gen calls)) \<in> gen ` {..<drawn (run gen calls)}" by blast
  then obtain n where "n < drawn (run gen calls)" and "gen (drawn (run gen calls)) = gen n"
    by auto
  with assms show False by (auto dest: injD)
qed

section \<open>Properties of create, get, list and update\<close>

lemma sample_store_bookings:
  "bookings sample_store =
     [(''u1'', \<lparr> bid = ''u1'', checkinDate = ''2024-01-01'', checkoutDate = ''2024-01-02'',
          guests = 2, guestName = ''Ann'', guestEmail = ''ann@example.com'',
          guestPhone = None, totalAmount = ''969'', status = JStr ''confirmed'',
          createdAt = 1000 \<rparr>)]"
  by (simp add: sample_store_def createBooking_def sample_payload_def MemStorage_new_def
      or_null_def Let_def)

text \<open>
  C3, as stated, fails: the record read back is not equal to the input on every field
  but \<open>id\<close> and \<open>createdAt\<close>. A payload whose phone is the empty string is stored
  with the phone \<open>null\<close>, because \<open>guestPhone || null\<close> treats the empty string
  like an omitted phone.
\<close>

theorem C3_empty_phone_counterexample:
  "map_option guestPhone
     (getBooking ''u1''
        (snd (createBooking ''u1'' 1000 (sample_payload\<lparr> insert_booking.guestPhone := Some [] \<rparr>)
                MemStorage_new))) = Some None
   \<and> insert_booking.guestPhone (sample_payload\<lparr> insert_booking.guestPhone := Some [] \<rparr>)
       = Some []"
  by (simp add: getBooking_def Map_get_def createBooking_def MemStorage_new_def or_null_def
      Let_def)

text \<open>
  C3, amended. For every booking payload, in every state the server's operations lead
  to and for a generator that does not repeat, \<open>create\<close> assigns a fresh unique
  identifier, one that is no key of the storage before the call and the key of one entry
  after it, and a creation timestamp; it turns an omitted or empty phone into \<open>null\<close>
  and copies every other field of the input. An immediate \<open>getBooking\<close> with that
  identifier returns exactly this record, and the records under other identifiers are
  not touched.
\<close>

theorem C3_create_then_get:
  assumes "inj gen"
  shows "getBooking (bid (fst (create gen now p (run gen calls))))
           (storage (run gen calls)) = None
   \<and> distinct (map fst (bookings (storage (snd (create gen now p (run gen calls))))))
   \<and> getBooking (bid (fst (create gen now p (run gen calls))))
        (storage (snd (create gen now p (run gen calls))))
       = Some (fst (create gen now p (run gen calls)))
   \<and> fst (create gen now p (run gen calls)) =
       \<lparr> bid = gen (drawn (run gen calls)),
         checkinDate = insert_booking.checkinDate p,
         checkoutDate = insert_booking.checkoutDate p,
         guests = insert_booking.guests p,
         guestName = insert_booking.guestName p,
         guestEmail = insert_booking.guestEmail p,
         guestPhone = (if insert_booking.guestPhone p = Some [] then None
                       else insert_booking.guestPhone p),
         totalAmount = insert_booking.totalAmount p,
         status = JStr (insert_booking.status p),
         createdAt = now \<rparr>
   \<and> (\<forall>k. k \<noteq> bid (fst (create gen now p (run gen calls))) \<longrightarrow>
         getBooking k (storage (snd (create gen now p (run gen calls))))
           = getBooking k (storage (run gen calls)))"
proof -
  define w where "w = run gen calls"
  define u where "u = gen (drawn w)"
  have made: "fst (create gen now p w) = fst (createBooking u now p (storage w))"
    and left: "storage (snd (create gen now p w)) = snd (createBooking u now p (storage w))"
    by (simp_all add: create_unfold u_def)
  have idb: "bid (fst (createBooking u now p (storage w))) = u"
    by (simp add: createBooking_fst)
  have fresh: "getBooking u (storage w) = None"
    using drawn_fresh [OF assms, of calls]
    by (simp add: getBooking_def Map_get_None_iff u_def w_def)
  have dist: "distinct (map fst (bookings (snd (createBooking u now p (storage w)))))"
    using run_invariant [of gen calls]
    by (simp add: createBooking_snd distinct_Map_set w_def)
  have got: "getBooking u (snd (createBooking u now p (storage w)))
               = Some (fst (createBooking u now p (storage w)))"
    by (simp add: getBooking_def createBooking_snd Map_get_set_same)
  have rec: "fst (createBooking u now p (storage w)) =
       \<lparr> bid = u,
         checkinDate = insert_booking.checkinDate p,
         checkoutDate = insert_booking.checkoutDate p,
         guests = insert_booking.guests p,
         guestName = insert_booking.guestName p,
         guestEmail = insert_booking.guestEmail p,
         guestPhone = (if insert_booking.guestPhone p = Some [] then None
                       else insert_booking.guestPhone p),
         totalAmount = insert_booking.totalAmount p,
         status = JStr (insert_booking.status p),
         createdAt = now \<rparr>"
    by (simp add: createBooking_fst or_null_cases)
  have others: "\<forall>k. k \<noteq> u \<longrightarrow>
      getBooking k (snd (createBooking u now p (storage w))) = getBooking k (storage w)"
    by (simp add: getBooking_def createBooking_snd Map_get_set_other)
  show ?thesis
    unfolding w_def [symmetric] made left idb
    using fresh dist got rec others unfolding u_def by (intro conjI)
qed

lemma inj_sample_gen: "inj sample_gen"
proof (rule injI)
  fix m n
  assume "sample_gen m = sample_gen n"
  then have "length (replicate m (CHR ''x'')) = length (replicate n (CHR ''x''))"
    by (simp add: sample_gen_def)
  then show "m = n" by simp
qed

lemma run_sample:
  "run sample_gen [Create 1000 sample_payload]
     = \<lparr> storage = snd (createBooking ''booking-'' 1000 sample_payload MemStorage_new),
         drawn = Suc 0 \<rparr>"
  by (simp add: run_def create_unfold sample_gen_def)

theorem C3_create_then_get_witness:
  "getBooking ''booking-x'' (storage (run sample_gen [Create 1000 sample_payload])) = None
   \<and> getBooking ''booking-x''
        (storage (snd (create sample_gen 2000 sample_payload
                         (run sample_gen [Create 1000 sample_payload]))))
     = Some \<lparr> bid = ''booking-x'', checkinDate = ''2024-01-01'', checkoutDate = ''2024-01-02'',
          guests = 2, guestName = ''Ann'', guestEmail = ''ann@example.com'',
          guestPhone = None, totalAmount = ''969'', status = JStr ''confirmed'',
          createdAt = 2000 \<rparr>"
proof -
  let ?w = "run sample_gen [Create 1000 sample_payload]"
  note inst = C3_create_then_get
    [OF inj_sample_gen, of 2000 sample_payload "[Create 1000 sample_payload]"]
  have dr: "drawn ?w = Suc 0"
    by (simp add: run_sample)
  have made: "fst (create sample_gen 2000 sample_payload ?w) =
       \<lparr> bid = ''booking-x'', checkinDate = ''2024-01-01'', checkoutDate = ''2024-01-02'',
          guests = 2, guestName = ''Ann'', guestEmail = ''ann@example.com'',
          guestPhone = None, totalAmount = ''969'', status = JStr ''confirmed'',
          createdAt = 2000 \<rparr>"
    unfolding inst [THEN conjunct2, THEN conjunct2, THEN conjunct2, THEN conjunct1] dr
    by (simp add: sample_gen_def sample_payload_def)
  have a: "getBooking ''booking-x'' (storage ?w) = None"
    using inst [THEN conjunct1] unfolding made by simp
  have b: "getBooking ''booking-x'' (storage (snd (create sample_gen 2000 sample_payload ?w)))
     = Some \<lparr> bid = ''booking-x'', checkinDate = ''2024-01-01'', checkoutDate = ''2024-01-02'',
          guests = 2, guestName = ''Ann'', guestEmail = ''ann@example.com'',
          guestPhone = None, totalAmount = ''969'', status = JStr ''confirmed'',
          createdAt = 2000 \<rparr>"
    using inst [THEN conjunct2, THEN conjunct2, THEN conjunct1] unfolding made by simp
  from a b show ?thesis by (intro conjI)
qed

text \<open>
  C4. For every storage, \<open>getBookings\<close> returns all stored records (as a multiset,
  the values of the map), ordered by \<open>createdAt\<close> descending, and the records of any
  one timestamp appear in the map's insertion order. Three records created in an empty
  storage at times \<open>t1 < t2 < t3\<close> under distinct identifiers are listed third,
  second, first.
\<close>

theorem C4_getBookings_order:
  "mset (getBookings st) = mset (Map_values (bookings st))
   \<and> sorted_wrt (\<lambda>a b. createdAt b \<le> createdAt a) (getBookings st)
   \<and> (\<forall>t. filter (\<lambda>b. createdAt b = t) (getBookings st)
             = filter (\<lambda>b. createdAt b = t) (Map_values (bookings st)))
   \<and> (t1 < t2 \<and> t2 < t3 \<and> u1 \<noteq> u2 \<and> u1 \<noteq> u3 \<and> u2 \<noteq> u3 \<longrightarrow>
        (case createBooking u1 t1 p1 MemStorage_new of (b1, s1) \<Rightarrow>
         case createBooking u2 t2 p2 s1 of (b2, s2) \<Rightarrow>
         case createBooking u3 t3 p3 s2 of (b3, s3) \<Rightarrow>
           getBookings s3 = [b3, b2, b1]))"
proof -
  have d: "t1 < t2 \<and> t2 < t3 \<and> u1 \<noteq> u2 \<and> u1 \<noteq> u3 \<and> u2 \<noteq> u3 \<longrightarrow>
        (case createBooking u1 t1 p1 MemStorage_new of (b1, s1) \<Rightarrow>
         case createBooking u2 t2 p2 s1 of (b2, s2) \<Rightarrow>
         case createBooking u3 t3 p3 s2 of (b3, s3) \<Rightarrow>
           getBookings s3 = [b3, b2, b1])"
    by (simp add: getBookings_def createBooking_def Let_def MemStorage_new_def
        Map_values_def Array_sort_def)
  from d show ?thesis
    using getBookings_mset [of st] getBookings_descending [of st] getBookings_stable [of _ st]
    by blast
qed

theorem C4_getBookings_order_witness:
  "map bid (getBookings
     (snd (createBooking ''u3'' 3000 sample_payload
       (snd (createBooking ''u2'' 2000 sample_payload sample_store)))))
   = [''u3'', ''u2'', ''u1'']"
proof -
  have h: "(1000::int) < 2000 \<and> (2000::int) < 3000
           \<and> ''u1'' \<noteq> ''u2'' \<and> ''u1'' \<noteq> ''u3'' \<and> ''u2'' \<noteq> ''u3''"
    by simp
  note inst = C4_getBookings_order
    [of MemStorage_new 1000 2000 3000 "''u1''" "''u2''" "''u3''"
        sample_payload sample_payload sample_payload,
     THEN conjunct2, THEN conjunct2, THEN conjunct2, THEN mp, OF h]
  from inst
  have "case createBooking ''u1'' 1000 sample_payload MemStorage_new of (b1, s1) \<Rightarrow>
         case createBooking ''u2'' 2000 sample_payload s1 of (b2, s2) \<Rightarrow>
         case createBooking ''u3'' 3000 sample_payload s2 of (b3, s3) \<Rightarrow>
           getBookings s3 = [b3, b2, b1]" .
  then show ?thesis
    by (simp add: sample_store_def createBooking_def Let_def split: prod.splits)
qed

text \<open>
  Equal timestamps: the record created third shares its timestamp with the first and is
  listed after it.
\<close>

lemma getBookings_tie_example:
  "map bid (getBookings
     (snd (createBooking ''u3'' 1000 sample_payload
       (snd (createBooking ''u2'' 2000 sample_payload sample_store)))))
   = [''u2'', ''u1'', ''u3'']"
  by (simp add: getBookings_def Array_sort_def Map_values_def createBooking_def Let_def
      sample_store_bookings)

text \<open>
  C5. For every storage and every identifier that is not a key of it, \<open>updateBooking\<close>
  returns \<open>undefined\<close> (\<open>None\<close>) and the storage is unchanged: no record is created
  or modified.
\<close>

theorem C5_update_unknown:
  "getBooking i st = None \<Longrightarrow> updateBooking i updateData st = (None, st)"
  by (simp add: getBooking_def updateBooking_def)

theorem C5_update_unknown_witness:
  "updateBooking ''zz'' (no_fields\<lparr> booking_partial.status := Some (JStr ''confirmed'') \<rparr>)
     sample_store = (None, sample_store)
   \<and> getBooking ''zz'' sample_store = None"
proof -
  have h: "getBooking ''zz'' sample_store = None"
    by (simp add: getBooking_def Map_get_def sample_store_bookings)
  from C5_update_unknown [OF h] h show ?thesis by simp
qed

lemma spread_status_only:
  "spread existing (no_fields\<lparr> booking_partial.status := Some v \<rparr>) = existing\<lparr> status := v \<rparr>"
  by (simp add: spread_def no_fields_def override_def)




lemma object_spread_append:
  "object_spread a (b @ c) = object_spread (object_spread a b) c"
  by (simp add: object_spread_def)





text \<open>
  The typed \<open>updateBooking\<close> is \<open>updateBooking_js\<close> on the payloads that a
  \<open>booking_partial\<close> describes: on the objects of the records it computes the object of
  the typed result.
\<close>

lemmas spread_unfold = entry_def object_spread_def booking_object_def override_def

lemma spread_fields:
  "object_spread (booking_object e) (entry ''id'' (map_option (\<lambda>v. Data (JStr v)) x1))
     = booking_object (e\<lparr> bid := override (bid e) x1 \<rparr>)"
  "object_spread (booking_object e) (entry ''checkinDate'' (map_option (\<lambda>v. Data (JStr v)) x2))
     = booking_object (e\<lparr> checkinDate := override (checkinDate e) x2 \<rparr>)"
  "object_spread (booking_object e) (entry ''checkoutDate'' (map_option (\<lambda>v. Data (JStr v)) x3))
     = booking_object (e\<lparr> checkoutDate := override (checkoutDate e) x3 \<rparr>)"
  "object_spread (booking_object e) (entry ''guests'' (map_option (\<lambda>v. Data (JNum v)) x4))
     = booking_object (e\<lparr> guests := override (guests e) x4 \<rparr>)"
  "object_spread (booking_object e) (entry ''guestName'' (map_option (\<lambda>v. Data (JStr v)) x5))
     = booking_object (e\<lparr> guestName := override (guestName e) x5 \<rparr>)"
  "object_spread (booking_object e) (entry ''guestEmail'' (map_option (\<lambda>v. Data (JStr v)) x6))
     = booking_object (e\<lparr> guestEmail := override (guestEmail e) x6 \<rparr>)"
  "object_spread (booking_object e) (entry ''guestPhone'' (map_option (\<lambda>v. Data (phone_value v)) x7))
     = booking_object (e\<lparr> guestPhone := override (guestPhone e) x7 \<rparr>)"
  "object_spread (booking_object e) (entry ''totalAmount'' (map_option (\<lambda>v. Data (JStr v)) x8))
     = booking_object (e\<lparr> totalAmount := override (totalAmount e) x8 \<rparr>)"
  "object_spread (booking_object e) (entry ''status'' (map_option Data x9))
     = booking_object (e\<lparr> status := override (status e) x9 \<rparr>)"
  "object_spread (booking_object e) (entry ''createdAt'' (map_option DateValue x10))
     = booking_object (e\<lparr> createdAt := override (createdAt e) x10 \<rparr>)"
  subgoal by (cases x1) (simp_all add: spread_unfold)
  subgoal by (cases x2) (simp_all add: spread_unfold)
  subgoal by (cases x3) (simp_all add: spread_unfold)
  subgoal by (cases x4) (simp_all add: spread_unfold)
  subgoal by (cases x5) (simp_all add: spread_unfold)
  subgoal by (cases x6) (simp_all add: spread_unfold)
  subgoal by (cases x7) (simp_all add: spread_unfold)
  subgoal by (cases x8) (simp_all add: spread_unfold)
  subgoal by (cases x9) (simp_all add: spread_unfold)
  subgoal by (cases x10) (simp_all add: spread_unfold)
  done

lemma spread_refines:
  "object_spread (booking_object e) (partial_object u) = booking_object (spread e u)"
proof -
  have "object_spread (booking_object e) (partial_object u)
          = booking_object
              (e\<lparr> bid := override (bid e) (booking_partial.bid u),
                  checkinDate := override (checkinDate e) (booking_partial.checkinDate u),
                  checkoutDate := override (checkoutDate e) (booking_partial.checkoutDate u),
                  guests := override (guests e) (booking_partial.guests u),
                  guestName := override (guestName e) (booking_partial.guestName u),
                  guestEmail := override (guestEmail e) (booking_partial.guestEmail u),
                  guestPhone := override (guestPhone e) (booking_partial.guestPhone u),
                  totalAmount := override (totalAmount e) (booking_partial.totalAmount u),
                  status := override (status e) (booking_partial.status u),
                  createdAt := override (createdAt e) (booking_partial.createdAt u) \<rparr>)"
    by (simp add: partial_object_def object_spread_append spread_fields)
  also have "\<dots> = booking_object (spread e u)"
    by (cases e) (simp add: spread_def)
  finally show ?thesis .
qed

lemma Map_get_map:
  "Map_get (map (\<lambda>(k, b). (k, f b)) m) i = map_option f (Map_get m i)"
  by (induction m) (auto simp: Map_get_def)

lemma Map_set_map:
  "Map_set (map (\<lambda>(k, b). (k, f b)) m) i (f v) = map (\<lambda>(k, b). (k, f b)) (Map_set m i v)"
  by (induction m) auto

lemma updateBooking_refines:
  "updateBooking_js i (partial_object u) (map (\<lambda>(k, b). (k, booking_object b)) (bookings st))
     = (map_option booking_object (fst (updateBooking i u st)),
        map (\<lambda>(k, b). (k, booking_object b)) (bookings (snd (updateBooking i u st))))"
  by (cases "Map_get (bookings st) i")
     (simp_all add: updateBooking_js_def updateBooking_def Map_get_map Map_set_map
        spread_refines Let_def)

section \<open>Properties of the insert schema\<close>

lemma email_sample: "emailRegex ''ann@example.com''"
  by (simp add: emailRegex_def local_ok_def domain_ok_def label_ok_def local_char_def
      local_end_def is_alnum_def is_letter_def)

text \<open>
  C7. The claim says that a guest count that is not an integer fails validation. The
  schema tests \<open>guests\<close> with \<open>z.number().min(1).max(10)\<close> only, so a payload with
  2.5 guests, otherwise well-formed, passes and yields an insert value with
  \<open>guests = 5/2\<close>. (The range and the address parts of the claim hold:
  \<open>guests_out_of_range_rejected\<close>, \<open>guests_not_a_number_rejected\<close> and
  \<open>email_without_at_rejected\<close> below.)
\<close>

theorem C7_fractional_guests_accepted:
  "insertBookingSchema fractional_body =
     Inr \<lparr> insert_booking.checkinDate = ''2024-01-01'', checkoutDate = ''2024-01-02'',
           guests = 5 / 2, guestName = ''Ann'', guestEmail = ''ann@example.com'',
           guestPhone = None, totalAmount = ''969'', status = ''pending'' \<rparr>"
  by (simp add: fractional_body_def insertBookingSchema_def z_string_min1_def z_guests_def
      z_email_def z_string_optional_def z_string_default_def make_insert_booking_def
      email_sample)

text \<open>
  What the schema does reject: issues of one key survive the checks of the later keys,
  so a guest count outside 1..10, a guest count that is not a number, and an address
  without \<open>@\<close> each fail validation with an issue at their own path.
\<close>

lemma collect_right_issue:
  "\<exists>es. collect r (Inl e) = Inl es \<and> set e \<subseteq> set es"
  by (cases r) auto

lemma collect_left_issue:
  "r = Inl e \<Longrightarrow> \<exists>es. collect r x = Inl es \<and> set e \<subseteq> set es"
  by (cases x) auto

lemma emailRegex_has_at:
  assumes "emailRegex s"
  shows "CHR ''@'' \<in> set s"
proof -
  have "dropWhile (\<lambda>c. c \<noteq> CHR ''@'') s \<noteq> []"
  proof
    assume "dropWhile (\<lambda>c. c \<noteq> CHR ''@'') s = []"
    with assms show False by (simp add: emailRegex_def)
  qed
  then show ?thesis
    by auto
qed

lemma z_guests_out_of_range:
  assumes "n < 1 \<or> 10 < n"
  shows "\<exists>es. z_guests (JNum n) = Inl es
           \<and> \<lparr> path = [''guests''],
                message = (if n < 1 then ''At least 1 guest is required''
                           else ''Maximum 10 guests allowed'') \<rparr> \<in> set es"
  using assms by (auto simp: z_guests_def Let_def)

lemma schema_guests_issue:
  assumes "z_guests (get_prop (JObj kvs) ''guests'') = Inl e"
  shows "\<exists>es. insertBookingSchema (JObj kvs) = Inl es \<and> set e \<subseteq> set es"
proof -
  let ?b = "JObj kvs"
  obtain e3 where s3: "collect (collect (collect (Inr make_insert_booking)
            (z_string_min1 ''checkinDate'' ''Check-in date is required''
               (get_prop ?b ''checkinDate'')))
            (z_string_min1 ''checkoutDate'' ''Check-out date is required''
               (get_prop ?b ''checkoutDate'')))
            (z_guests (get_prop ?b ''guests'')) = Inl e3" and i3: "set e \<subseteq> set e3"
    unfolding assms using collect_right_issue by blast
  obtain e4 where s4: "collect (Inl e3 :: issue list + (string \<Rightarrow> string \<Rightarrow> string option \<Rightarrow> string \<Rightarrow> string \<Rightarrow> insert_booking))
      (z_string_min1 ''guestName'' ''Guest name is required'' (get_prop ?b ''guestName'')) = Inl e4"
    and i4: "set e3 \<subseteq> set e4"
    using collect_left_issue [OF refl] by blast
  obtain e5 where s5: "collect (Inl e4 :: issue list + (string \<Rightarrow> string option \<Rightarrow> string \<Rightarrow> string \<Rightarrow> insert_booking))
      (z_email ''guestEmail'' ''Valid email is required'' (get_prop ?b ''guestEmail'')) = Inl e5"
    and i5: "set e4 \<subseteq> set e5"
    using collect_left_issue [OF refl] by blast
  obtain e6 where s6: "collect (Inl e5 :: issue list + (string option \<Rightarrow> string \<Rightarrow> string \<Rightarrow> insert_booking))
      (z_string_optional ''guestPhone'' (get_prop ?b ''guestPhone'')) = Inl e6"
    and i6: "set e5 \<subseteq> set e6"
    using collect_left_issue [OF refl] by blast
  obtain e7 where s7: "collect (Inl e6 :: issue list + (string \<Rightarrow> string \<Rightarrow> insert_booking))
      (z_string_min1 ''totalAmount'' ''Total amount is required'' (get_prop ?b ''totalAmount'')) = Inl e7"
    and i7: "set e6 \<subseteq> set e7"
    using collect_left_issue [OF refl] by blast
  obtain e8 where s8: "collect (Inl e7 :: issue list + (string \<Rightarrow> insert_booking))
      (z_string_default ''status'' ''pending'' (get_prop ?b ''status'')) = Inl e8"
    and i8: "set e7 \<subseteq> set e8"
    using collect_left_issue [OF refl] by blast
  have "insertBookingSchema ?b = Inl e8"
    unfolding insertBookingSchema_def json.case s3 s4 s5 s6 s7 s8 ..
  moreover have "set e \<subseteq> set e8"
    using i3 i4 i5 i6 i7 i8 by blast
  ultimately show ?thesis by blast
qed


lemma schema_email_issue:
  assumes "z_email ''guestEmail'' ''Valid email is required''
             (get_prop (JObj kvs) ''guestEmail'') = Inl e"
  shows "\<exists>es. insertBookingSchema (JObj kvs) = Inl es \<and> set e \<subseteq> set es"
proof -
  let ?b = "JObj kvs"
  obtain e5 where s5: "collect (collect (collect (collect (collect (Inr make_insert_booking)
            (z_string_min1 ''checkinDate'' ''Check-in date is required''
               (get_prop ?b ''checkinDate'')))
            (z_string_min1 ''checkoutDate'' ''Check-out date is required''
               (get_prop ?b ''checkoutDate'')))
            (z_guests (get_prop ?b ''guests'')))
            (z_string_min1 ''guestName'' ''Guest name is required''
               (get_prop ?b ''guestName'')))
            (z_email ''guestEmail'' ''Valid email is required''
               (get_prop ?b ''guestEmail'')) = Inl e5" and i5: "set e \<subseteq> set e5"
    unfolding assms using collect_right_issue by blast
  obtain e6 where s6: "collect (Inl e5 :: issue list + (string option \<Rightarrow> string \<Rightarrow> string \<Rightarrow> insert_booking))
      (z_string_optional ''guestPhone'' (get_prop ?b ''guestPhone'')) = Inl e6"
    and i6: "set e5 \<subseteq> set e6"
    using collect_left_issue [OF refl] by blast
  obtain e7 where s7: "collect (Inl e6 :: issue list + (string \<Rightarrow> string \<Rightarrow> insert_booking))
      (z_string_min1 ''totalAmount'' ''Total amount is required'' (get_prop ?b ''totalAmount'')) = Inl e7"
    and i7: "set e6 \<subseteq> set e7"
    using collect_left_issue [OF refl] by blast
  obtain e8 where s8: "collect (Inl e7 :: issue list + (string \<Rightarrow> insert_booking))
      (z_string_default ''status'' ''pending'' (get_prop ?b ''status'')) = Inl e8"
    and i8: "set e7 \<subseteq> set e8"
    using collect_left_issue [OF refl] by blast
  have "insertBookingSchema ?b = Inl e8"
    unfolding insertBookingSchema_def json.case s5 s6 s7 s8 ..
  moreover have "set e \<subseteq> set e8"
    using i5 i6 i7 i8 by blast
  ultimately show ?thesis by blast
qed

lemma guests_out_of_range_rejected:
  assumes "map_of kvs ''guests'' = Some (JNum n)" and "n < 1 \<or> 10 < n"
  shows "\<exists>es. insertBookingSchema (JObj kvs) = Inl es
           \<and> \<lparr> path = [''guests''],
                message = (if n < 1 then ''At least 1 guest is required''
                           else ''Maximum 10 guests allowed'') \<rparr> \<in> set es"
proof -
  have g: "get_prop (JObj kvs) ''guests'' = JNum n"
    using assms(1) by simp
  from z_guests_out_of_range [OF assms(2)] obtain e where
    e: "z_guests (JNum n) = Inl e"
    and m: "\<lparr> path = [''guests''],
              message = (if n < 1 then ''At least 1 guest is required''
                         else ''Maximum 10 guests allowed'') \<rparr> \<in> set e"
    by blast
  from schema_guests_issue [of kvs e] e g obtain es where
    "insertBookingSchema (JObj kvs) = Inl es" and "set e \<subseteq> set es"
    by auto
  with m show ?thesis by blast
qed

lemma guests_not_a_number_rejected:
  assumes "map_of kvs ''guests'' = Some v" and "\<forall>n. v \<noteq> JNum n"
  shows "\<exists>es. insertBookingSchema (JObj kvs) = Inl es
           \<and> invalid_type [''guests''] ''number'' v \<in> set es"
proof -
  have g: "get_prop (JObj kvs) ''guests'' = v"
    using assms(1) by simp
  have e: "z_guests v = Inl [invalid_type [''guests''] ''number'' v]"
    using assms(2) by (cases v) (simp_all add: z_guests_def)
  from schema_guests_issue [of kvs "[invalid_type [''guests''] ''number'' v]"] e g
  obtain es where "insertBookingSchema (JObj kvs) = Inl es"
    and "set [invalid_type [''guests''] ''number'' v] \<subseteq> set es"
    by auto
  then show ?thesis by auto
qed

lemma email_without_at_rejected:
  assumes "map_of kvs ''guestEmail'' = Some (JStr s)" and "CHR ''@'' \<notin> set s"
  shows "\<exists>es. insertBookingSchema (JObj kvs) = Inl es
           \<and> \<lparr> path = [''guestEmail''], message = ''Valid email is required'' \<rparr> \<in> set es"
proof -
  have g: "get_prop (JObj kvs) ''guestEmail'' = JStr s"
    using assms(1) by simp
  have "\<not> emailRegex s"
    using assms(2) emailRegex_has_at by blast
  then have e: "z_email ''guestEmail'' ''Valid email is required'' (JStr s)
       = Inl [\<lparr> path = [''guestEmail''], message = ''Valid email is required'' \<rparr>]"
    by (simp add: z_email_def)
  from schema_email_issue
    [of kvs "[\<lparr> path = [''guestEmail''], message = ''Valid email is required'' \<rparr>]"] e g
  obtain es where "insertBookingSchema (JObj kvs) = Inl es"
    and "set [\<lparr> path = [''guestEmail''], message = ''Valid email is required'' \<rparr>] \<subseteq> set es"
    by auto
  then show ?thesis by auto
qed

lemma confirmed_body_parse:
  "insertBookingSchema_parse confirmed_body = Inr sample_payload"
  by (simp add: confirmed_body_def insertBookingSchema_parse_def insertBookingSchema_def
      z_string_min1_def z_guests_def z_email_def z_string_optional_def z_string_default_def
      make_insert_booking_def email_sample sample_payload_def)

section \<open>Properties of the route handlers\<close>

lemma sendEmail_returns: "\<exists>ok. sendEmail send params = Inr ok"
  by (cases "send params") (auto simp: sendEmail_def)

lemma sendBookingConfirmation_returns:
  "\<exists>ok. sendBookingConfirmation send render booking = Inr ok"
  by (simp add: sendBookingConfirmation_def Let_def sendEmail_returns)

lemma sendBookingConfirmation_failed:
  "send = (\<lambda>_. Inl e) \<Longrightarrow> sendBookingConfirmation send render booking = Inr False"
  by (simp add: sendBookingConfirmation_def Let_def sendEmail_def)

text \<open>
  C8. When the body passes validation with status \<open>confirmed\<close>, then for every
  notifier, whether it returns \<open>true\<close>, returns \<open>false\<close> or throws, the handler
  answers 201 with the stored record and the record is in the storage under its
  identifier; a \<open>false\<close> result only writes a warning and a thrown error only writes
  an error line to the console. \<open>sendBookingConfirmation\<close> itself returns a boolean
  for every behaviour of the mail service: it never throws.
\<close>

theorem C8_notifier_failure_harmless:
  assumes "insertBookingSchema_parse body = Inr v"
    and "insert_booking.status v = ''confirmed''"
  shows "post_bookings notifier uuid now body st
           = (Response 201 (BookingReply (fst (createBooking uuid now v st))),
              snd (createBooking uuid now v st),
              notify_confirmed notifier (fst (createBooking uuid now v st)))
         \<and> getBooking uuid (snd (createBooking uuid now v st))
             = Some (fst (createBooking uuid now v st))
         \<and> (notifier (fst (createBooking uuid now v st)) = Inr False \<longrightarrow>
              notify_confirmed notifier (fst (createBooking uuid now v st))
                = [Warn (''Failed to send confirmation email for booking '' @ uuid)])
         \<and> (\<forall>e. notifier (fst (createBooking uuid now v st)) = Inl e \<longrightarrow>
              notify_confirmed notifier (fst (createBooking uuid now v st))
                = [ErrorLine (''Error sending confirmation email for booking '' @ uuid @ '':'')])
         \<and> (\<forall>send render. \<exists>ok.
              sendBookingConfirmation send render (fst (createBooking uuid now v st)) = Inr ok)"
proof -
  obtain b s' where cb: "createBooking uuid now v st = (b, s')"
    by (cases "createBooking uuid now v st")
  have conf: "status b = JStr ''confirmed''"
    using cb assms(2) by (auto simp: createBooking_def Let_def)
  have idb: "bid b = uuid"
    using cb by (auto simp: createBooking_def Let_def)
  have run: "post_bookings notifier uuid now body st
               = (Response 201 (BookingReply b), s', notify_confirmed notifier b)"
    using assms(1) cb conf by (simp add: post_bookings_def post_bookings_try_def Let_def)
  have got: "getBooking uuid s' = Some b"
    using cb by (auto simp: getBooking_def createBooking_def Let_def Map_get_set_same)
  have warn: "notifier b = Inr False \<longrightarrow>
      notify_confirmed notifier b
        = [Warn (''Failed to send confirmation email for booking '' @ uuid)]"
    by (simp add: notify_confirmed_def idb)
  have err: "\<forall>e. notifier b = Inl e \<longrightarrow>
      notify_confirmed notifier b
        = [ErrorLine (''Error sending confirmation email for booking '' @ uuid @ '':'')]"
    by (simp add: notify_confirmed_def idb)
  have ret: "\<forall>send render. \<exists>ok. sendBookingConfirmation send render b = Inr ok"
    by (simp add: sendBookingConfirmation_returns)
  show ?thesis
    unfolding cb fst_conv snd_conv using run got warn err ret by (intro conjI)
qed

theorem C8_notifier_failure_harmless_witness:
  "post_bookings (sendBookingConfirmation (\<lambda>_. Inl (Error ''mail service down'')) (\<lambda>_. []))
      ''u1'' 1000 confirmed_body MemStorage_new
     = (Response 201 (BookingReply (fst (createBooking ''u1'' 1000 sample_payload MemStorage_new))),
        sample_store,
        [Warn ''Failed to send confirmation email for booking u1''])
   \<and> post_bookings (\<lambda>_. Inl (Error ''thrown'')) ''u1'' 1000 confirmed_body MemStorage_new
     = (Response 201 (BookingReply (fst (createBooking ''u1'' 1000 sample_payload MemStorage_new))),
        sample_store,
        [ErrorLine ''Error sending confirmation email for booking u1:''])
   \<and> getBooking ''u1'' sample_store
       = Some (fst (createBooking ''u1'' 1000 sample_payload MemStorage_new))"
proof -
  have st: "insert_booking.status sample_payload = ''confirmed''"
    by (simp add: sample_payload_def)
  let ?b = "fst (createBooking ''u1'' 1000 sample_payload MemStorage_new)"
  let ?n1 = "sendBookingConfirmation (\<lambda>_. Inl (Error ''mail service down'')) (\<lambda>_. [])"
  let ?n2 = "\<lambda>_ :: booking. (Inl (Error ''thrown'') :: exn + bool)"
  have f1: "?n1 ?b = Inr False"
    by (rule sendBookingConfirmation_failed) simp
  have f2: "?n2 ?b = Inl (Error ''thrown'')"
    by simp
  note i1 = C8_notifier_failure_harmless
    [OF confirmed_body_parse st, of ?n1 "''u1''" 1000 MemStorage_new]
  note i2 = C8_notifier_failure_harmless
    [OF confirmed_body_parse st, of ?n2 "''u1''" 1000 MemStorage_new]
  have w1: "notify_confirmed ?n1 ?b = [Warn ''Failed to send confirmation email for booking u1'']"
    using i1 f1 by simp
  have w2: "notify_confirmed ?n2 ?b = [ErrorLine ''Error sending confirmation email for booking u1:'']"
    using i2 f2 by simp
  from i1 w1 have a: "post_bookings ?n1 ''u1'' 1000 confirmed_body MemStorage_new
     = (Response 201 (BookingReply ?b), sample_store,
        [Warn ''Failed to send confirmation email for booking u1''])"
    by (simp add: sample_store_def)
  from i2 w2 have b: "post_bookings ?n2 ''u1'' 1000 confirmed_body MemStorage_new
     = (Response 201 (BookingReply ?b), sample_store,
        [ErrorLine ''Error sending confirmation email for booking u1:''])"
    by (simp add: sample_store_def)
  from i1 have c: "getBooking ''u1'' sample_store = Some ?b"
    by (simp add: sample_store_def)
  from a b c show ?thesis by blast
qed

text \<open>
  C9. A status-update request whose body has the empty string as status is answered
  like one with no status: 400 \<open>Status is required\<close>, with the storage unchanged. A
  non-empty status string of any value is passed to \<open>updateBooking\<close>: for a stored
  identifier the answer is 200 with the record carrying the new status, which is then
  what the storage holds; for an unknown identifier the answer is 404 and the storage is
  unchanged.
\<close>

theorem C9_patch_status:
  "(map_of kvs ''status'' = Some (JStr []) \<longrightarrow>
      patch_booking i (JObj kvs) st = (Response 400 (MessageReply ''Status is required''), st))
   \<and> (map_of kvs ''status'' = None \<longrightarrow>
      patch_booking i (JObj kvs) st = (Response 400 (MessageReply ''Status is required''), st))
   \<and> (map_of kvs ''status'' = Some (JStr s) \<and> s \<noteq> [] \<and> getBooking i st = Some existing \<longrightarrow>
      patch_booking i (JObj kvs) st
        = (Response 200 (BookingReply (existing\<lparr> status := JStr s \<rparr>)),
           st\<lparr> bookings := Map_set (bookings st) i (existing\<lparr> status := JStr s \<rparr>) \<rparr>)
      \<and> getBooking i (snd (patch_booking i (JObj kvs) st))
           = Some (existing\<lparr> status := JStr s \<rparr>))
   \<and> (map_of kvs ''status'' = Some (JStr s) \<and> s \<noteq> [] \<and> getBooking i st = None \<longrightarrow>
      patch_booking i (JObj kvs) st = (Response 404 (MessageReply ''Booking not found''), st))"
proof -
  have empty: "map_of kvs ''status'' = Some (JStr []) \<longrightarrow>
      patch_booking i (JObj kvs) st = (Response 400 (MessageReply ''Status is required''), st)"
    by (simp add: patch_booking_def Let_def)
  have missing: "map_of kvs ''status'' = None \<longrightarrow>
      patch_booking i (JObj kvs) st = (Response 400 (MessageReply ''Status is required''), st)"
    by (simp add: patch_booking_def Let_def)
  have found: "map_of kvs ''status'' = Some (JStr s) \<and> s \<noteq> [] \<and> getBooking i st = Some existing \<longrightarrow>
      patch_booking i (JObj kvs) st
        = (Response 200 (BookingReply (existing\<lparr> status := JStr s \<rparr>)),
           st\<lparr> bookings := Map_set (bookings st) i (existing\<lparr> status := JStr s \<rparr>) \<rparr>)
      \<and> getBooking i (snd (patch_booking i (JObj kvs) st))
           = Some (existing\<lparr> status := JStr s \<rparr>)"
    by (simp add: patch_booking_def Let_def updateBooking_def getBooking_def
        spread_status_only Map_get_set_same)
  have unknown: "map_of kvs ''status'' = Some (JStr s) \<and> s \<noteq> [] \<and> getBooking i st = None \<longrightarrow>
      patch_booking i (JObj kvs) st = (Response 404 (MessageReply ''Booking not found''), st)"
    by (simp add: patch_booking_def Let_def updateBooking_def getBooking_def)
  from empty missing found unknown show ?thesis by (intro conjI)
qed

theorem C9_patch_status_witness:
  "patch_booking ''u1'' (JObj [(''status'', JStr [])]) sample_store
     = (Response 400 (MessageReply ''Status is required''), sample_store)
   \<and> patch_booking ''u1'' (JObj []) sample_store
     = (Response 400 (MessageReply ''Status is required''), sample_store)
   \<and> map_option status
        (getBooking ''u1'' (snd (patch_booking ''u1'' (JObj [(''status'', JStr ''anything'')])
                                  sample_store)))
       = Some (JStr ''anything'')
   \<and> patch_booking ''zz'' (JObj [(''status'', JStr ''anything'')]) sample_store
     = (Response 404 (MessageReply ''Booking not found''), sample_store)"
proof -
  let ?e = "\<lparr> bid = ''u1'', checkinDate = ''2024-01-01'', checkoutDate = ''2024-01-02'',
          guests = 2, guestName = ''Ann'', guestEmail = ''ann@example.com'',
          guestPhone = None, totalAmount = ''969'', status = JStr ''confirmed'',
          createdAt = 1000 \<rparr>"
  have h1: "getBooking ''u1'' sample_store = Some ?e"
    by (simp add: getBooking_def Map_get_def sample_store_bookings)
  have hz: "getBooking ''zz'' sample_store = None"
    by (simp add: getBooking_def Map_get_def sample_store_bookings)
  have a: "patch_booking ''u1'' (JObj [(''status'', JStr [])]) sample_store
     = (Response 400 (MessageReply ''Status is required''), sample_store)"
    using C9_patch_status [of "[(''status'', JStr [])]" "''u1''" sample_store] by simp
  have b: "patch_booking ''u1'' (JObj []) sample_store
     = (Response 400 (MessageReply ''Status is required''), sample_store)"
    using C9_patch_status [of "[]" "''u1''" sample_store] by simp
  have pre: "map_of [(''status'', JStr ''anything'')] ''status'' = Some (JStr ''anything'')
      \<and> ''anything'' \<noteq> [] \<and> getBooking ''u1'' sample_store = Some ?e"
    using h1 by simp
  note applied = C9_patch_status
    [of "[(''status'', JStr ''anything'')]" "''u1''" sample_store "''anything''" ?e,
     THEN conjunct2, THEN conjunct2, THEN conjunct1, THEN mp, OF pre, THEN conjunct2]
  have c: "map_option status
        (getBooking ''u1'' (snd (patch_booking ''u1'' (JObj [(''status'', JStr ''anything'')])
                                  sample_store)))
       = Some (JStr ''anything'')"
    by (simp add: applied)
  have d: "patch_booking ''zz'' (JObj [(''status'', JStr ''anything'')]) sample_store
     = (Response 404 (MessageReply ''Booking not found''), sample_store)"
    using C9_patch_status
      [of "[(''status'', JStr ''anything'')]" "''zz''" sample_store "''anything''"] hz
    by simp
  from a b c d show ?thesis by (intro conjI)
qed

end
